theory Spec2Isabelle
  imports Complex_Main "HOL-Library.Multiset"
begin

section \<open>Memory Match Pro: the game engine of \<open>MemoryMatchGame\<close>\<close>

text \<open>
  A shallow embedding of the class \<open>MemoryMatchGame\<close>. Conventions of the model:
  \<^item> JavaScript numbers that hold counters, scores and millisecond clocks are \<open>int\<close>;
    pixel coordinates are \<open>real\<close> (exact arithmetic in place of IEEE doubles).
  \<^item> A card symbol is the Unicode code point of the emoji; \<open>None\<close> is \<open>undefined\<close>.
  \<^item> The flip buffer \<open>flippedCards\<close> holds references to card objects of \<open>this.cards\<close>.
    A reference is the index of the card in \<open>cards\<close> (which is also its \<open>id\<close>): the
    source empties the buffer whenever it builds a new board, so a reference never
    outlives its board.
  \<^item> \<open>Date.now()\<close> and \<open>Math.random()\<close> are inputs: a method that reads the clock takes
    \<open>now\<close>; the shuffle takes \<open>rnd\<close>, where \<open>rnd i\<close> is the number \<open>Math.random()\<close>
    returns in the iteration with loop index \<open>i\<close>.
  \<^item> A thrown exception is \<open>Some e\<close> in the first component of the result; the second
    component is the object as the statements before the throw left it.
  \<^item> The browser's timers are part of the state: \<open>intervals\<close> are the handles of the
    live \<open>setInterval\<close> timers, \<open>pendingCheckMatch\<close> and \<open>pendingGameComplete\<close> count the
    \<open>setTimeout\<close> callbacks that have not fired yet. Delays are not modelled.
  \<^item> Rendering, sound, particles and overlay bookkeeping write no field of the game
    and are left out; the page's elements are taken to exist. The settings (volume,
    theme, effects) and their own entry in \<open>localStorage\<close> are left out as well.
  \<^item> \<open>canvasWidth\<close> and \<open>canvasHeight\<close> are \<open>canvas.width\<close> and \<open>canvas.height\<close> as
    \<open>resizeCanvas\<close> assigns them.
  \<^item> A difficulty is the string that indexes \<open>this.difficulties\<close>; a name that the table
    does not have gives \<open>undefined\<close>.
\<close>

subsection \<open>Data\<close>

type_synonym symbol = nat

record card =
  card_id :: nat
  symbol :: "symbol option"
  card_x :: real
  card_y :: real
  width :: real
  height :: real
  isFlipped :: bool
  isMatched :: bool
  flipTime :: int

record config =
  rows :: nat
  cols :: nat
  timeBonus :: int

datatype phase = Loading | Menu | Playing | Completed

datatype error = TypeError

record game =
  canvasWidth :: real
  canvasHeight :: real
  gameState :: phase
  cards :: "card list"
  flippedCards :: "nat list"
  matchedPairs :: int
  score :: int
  moves :: int
  level :: int
  startTime :: "int option"
  gameTime :: int
  difficulty :: string
  isPaused :: bool
  difficulties :: "(string \<times> config) list"
  cardSymbols :: "symbol list"
  timerInterval :: "nat option"
  intervals :: "nat list"
  nextHandle :: nat
  pendingCheckMatch :: nat
  pendingGameComplete :: nat
  localStorage :: "string \<rightharpoonup> string"

record domRect =
  rect_left :: real
  rect_top :: real
  rect_width :: real
  rect_height :: real

subsection \<open>Scoring\<close>

text \<open>\<open>calculateScore\<close>: reading \<open>config.timeBonus\<close> of an unknown difficulty throws.\<close>

definition calculateScore :: "game \<Rightarrow> error + int" where
  "calculateScore s =
     (case map_of (difficulties s) (difficulty s) of
        None \<Rightarrow> Inl TypeError
      | Some config \<Rightarrow>
          (let baseScore = 100;
               timeBonus = max 0 (timeBonus config - gameTime s div 1000);
               movesPenalty = max 0 (moves s * 5)
           in Inr (max 10 (baseScore + timeBonus - movesPenalty))))"

subsection \<open>Flipping and resolving\<close>

definition hit :: "card \<Rightarrow> real \<Rightarrow> real \<Rightarrow> bool" where
  "hit c x y \<longleftrightarrow>
     x \<ge> card_x c \<and> x \<le> card_x c + width c \<and> y \<ge> card_y c \<and> y \<le> card_y c + height c"

text \<open>\<open>this.cards.find(...)\<close>: the first card under the point that is face down and unmatched.\<close>

definition findCard :: "card list \<Rightarrow> real \<Rightarrow> real \<Rightarrow> nat option" where
  "findCard cs x y =
     List.find (\<lambda>i. hit (cs ! i) x y \<and> \<not> isFlipped (cs ! i) \<and> \<not> isMatched (cs ! i))
       [0..<length cs]"

definition flipCard :: "game \<Rightarrow> nat \<Rightarrow> int \<Rightarrow> game" where
  "flipCard s c now =
     (let s1 = s\<lparr>cards := (cards s)[c := (cards s ! c)\<lparr>isFlipped := True, flipTime := now\<rparr>],
                 flippedCards := flippedCards s @ [c]\<rparr>
      in if length (flippedCards s1) = 2
         then s1\<lparr>moves := moves s1 + 1, pendingCheckMatch := Suc (pendingCheckMatch s1)\<rparr>
         else s1)"

definition handleCardClick :: "game \<Rightarrow> real \<Rightarrow> real \<Rightarrow> int \<Rightarrow> game" where
  "handleCardClick s x y now =
     (if length (flippedCards s) \<ge> 2 then s
      else case findCard (cards s) x y of
             None \<Rightarrow> s
           | Some clickedCard \<Rightarrow> flipCard s clickedCard now)"

text \<open>
  \<open>handleCanvasClick\<close>: with a bounding rectangle of width or height zero the scaled
  coordinate is infinite or NaN, every comparison of the hit test is false and no card
  is found.
\<close>

definition handleCanvasClick :: "game \<Rightarrow> real \<Rightarrow> real \<Rightarrow> domRect \<Rightarrow> int \<Rightarrow> game" where
  "handleCanvasClick s clientX clientY rect now =
     (if gameState s \<noteq> Playing \<or> isPaused s then s
      else if rect_width rect = 0 \<or> rect_height rect = 0 then s
      else
        (let x = clientX - rect_left rect;
             y = clientY - rect_top rect;
             scaleX = canvasWidth s / rect_width rect;
             scaleY = canvasHeight s / rect_height rect
         in handleCardClick s (x * scaleX) (y * scaleY) now))"

definition setMatched :: "nat \<Rightarrow> card list \<Rightarrow> card list" where
  "setMatched c cs = cs[c := (cs ! c)\<lparr>isMatched := True\<rparr>]"

definition unflip :: "nat \<Rightarrow> card list \<Rightarrow> card list" where
  "unflip c cs = cs[c := (cs ! c)\<lparr>isFlipped := False\<rparr>]"

text \<open>
  \<open>checkMatch\<close>: destructuring a buffer with fewer than two cards gives \<open>undefined\<close>, and
  reading \<open>.symbol\<close> of it throws before anything is written. In the match branch the
  cards are marked and \<open>matchedPairs\<close> is incremented before \<open>calculateScore\<close> runs.
\<close>

definition checkMatch :: "game \<Rightarrow> error option \<times> game" where
  "checkMatch s =
     (case flippedCards s of
        [] \<Rightarrow> (Some TypeError, s)
      | [card1] \<Rightarrow> (Some TypeError, s)
      | card1 # card2 # _ \<Rightarrow>
          if symbol (cards s ! card1) = symbol (cards s ! card2) then
            (let s1 = s\<lparr>cards := setMatched card2 (setMatched card1 (cards s)),
                        matchedPairs := matchedPairs s + 1\<rparr>
             in case calculateScore s1 of
                  Inl e \<Rightarrow> (Some e, s1)
                | Inr points \<Rightarrow>
                    (let s2 = s1\<lparr>score := score s1 + points\<rparr>;
                         s3 = (if 2 * matchedPairs s2 = int (length (cards s2))
                               then s2\<lparr>pendingGameComplete := Suc (pendingGameComplete s2)\<rparr>
                               else s2)
                     in (None, s3\<lparr>flippedCards := []\<rparr>)))
          else
            (None, s\<lparr>cards := unflip card2 (unflip card1 (cards s)), flippedCards := []\<rparr>))"

subsection \<open>Building the board\<close>

text \<open>\<open>[array[i], array[j]] = [array[j], array[i]]\<close>: both reads come before both writes.\<close>

definition swap :: "'a list \<Rightarrow> nat \<Rightarrow> nat \<Rightarrow> 'a list" where
  "swap array i j = array[i := array ! j, j := array ! i]"

text \<open>The loop of \<open>shuffleArray\<close>, from index \<open>i\<close> down to 1.\<close>

fun shuffleFrom :: "(nat \<Rightarrow> real) \<Rightarrow> nat \<Rightarrow> 'a list \<Rightarrow> 'a list" where
  "shuffleFrom rnd 0 array = array"
| "shuffleFrom rnd (Suc i) array =
     (let j = nat \<lfloor>rnd (Suc i) * real (Suc i + 1)\<rfloor>
      in shuffleFrom rnd i (swap array (Suc i) j))"

definition shuffleArray :: "(nat \<Rightarrow> real) \<Rightarrow> 'a list \<Rightarrow> 'a list" where
  "shuffleArray rnd array = shuffleFrom rnd (length array - 1) array"

text \<open>\<open>Math.random()\<close> returns a number in \<open>[0, 1)\<close>.\<close>

definition validRandom :: "(nat \<Rightarrow> real) \<Rightarrow> bool" where
  "validRandom rnd \<longleftrightarrow> (\<forall>i. 0 \<le> rnd i \<and> rnd i < 1)"

text \<open>The object pushed in iteration \<open>i\<close>; \<open>cardData[i]\<close> past the end is \<open>undefined\<close>.\<close>

definition makeCard :: "config \<Rightarrow> symbol list \<Rightarrow> real \<Rightarrow> real \<Rightarrow> nat \<Rightarrow> card" where
  "makeCard config cardData cardWidth cardHeight i =
     (let row = i div cols config;
          col = i mod cols config
      in \<lparr>card_id = i,
          symbol = (if i < length cardData then Some (cardData ! i) else None),
          card_x = 30 + real col * cardWidth,
          card_y = 30 + real row * cardHeight,
          width = cardWidth - 10,
          height = cardHeight - 10,
          isFlipped = False,
          isMatched = False,
          flipTime = 0\<rparr>)"

text \<open>
  \<open>createCards\<close>: \<open>config.rows\<close> of an unknown difficulty throws. \<open>slice(0, pairsNeeded)\<close>
  truncates a fractional bound and returns the whole pool when the pool is shorter.
  The two quotients are only read inside the loop, which runs when both \<open>rows\<close> and
  \<open>cols\<close> are positive.
\<close>

definition createCards :: "game \<Rightarrow> (nat \<Rightarrow> real) \<Rightarrow> error option \<times> game" where
  "createCards s rnd =
     (case map_of (difficulties s) (difficulty s) of
        None \<Rightarrow> (Some TypeError, s)
      | Some config \<Rightarrow>
          (let totalCards = rows config * cols config;
               pairsNeeded = totalCards div 2;
               selectedSymbols = take pairsNeeded (cardSymbols s);
               cardData = shuffleArray rnd (selectedSymbols @ selectedSymbols);
               cardWidth = (canvasWidth s - 60) / real (cols config);
               cardHeight = (canvasHeight s - 60) / real (rows config)
           in (None, s\<lparr>cards := map (makeCard config cardData cardWidth cardHeight)
                                     [0..<totalCards]\<rparr>)))"

definition initializeGame :: "game \<Rightarrow> int \<Rightarrow> (nat \<Rightarrow> real) \<Rightarrow> error option \<times> game" where
  "initializeGame s now rnd =
     createCards
       (s\<lparr>score := 0, moves := 0, matchedPairs := 0, flippedCards := [],
          startTime := Some now\<rparr>) rnd"

subsection \<open>The elapsed-time timer\<close>

definition clearInterval :: "nat \<Rightarrow> game \<Rightarrow> game" where
  "clearInterval h s = s\<lparr>intervals := removeAll h (intervals s)\<rparr>"

text \<open>
  \<open>startTimer\<close>: \<open>if (this.timerInterval)\<close> is false for \<open>undefined\<close> and for 0.
  \<open>setInterval\<close> returns a fresh handle, which the model numbers consecutively.
\<close>

definition startTimer :: "game \<Rightarrow> game" where
  "startTimer s =
     (let s1 = (case timerInterval s of
                  None \<Rightarrow> s
                | Some h \<Rightarrow> if h \<noteq> 0 then clearInterval h s else s)
      in s1\<lparr>timerInterval := Some (nextHandle s1),
            intervals := intervals s1 @ [nextHandle s1],
            nextHandle := Suc (nextHandle s1)\<rparr>)"

text \<open>\<open>destroy\<close> clears the timer and keeps the handle in \<open>timerInterval\<close>.\<close>

definition destroy :: "game \<Rightarrow> game" where
  "destroy s =
     (case timerInterval s of
        None \<Rightarrow> s
      | Some h \<Rightarrow> if h \<noteq> 0 then clearInterval h s else s)"

text \<open>The callback of the interval timer; \<open>Date.now() - null\<close> is \<open>Date.now()\<close>.\<close>

definition tick :: "game \<Rightarrow> int \<Rightarrow> game" where
  "tick s now =
     (if \<not> isPaused s \<and> gameState s = Playing
      then s\<lparr>gameTime := now - (case startTime s of None \<Rightarrow> 0 | Some t \<Rightarrow> t)\<rparr>
      else s)"

definition ticks :: "game \<Rightarrow> int list \<Rightarrow> game" where
  "ticks s nows = foldl tick s nows"

subsection \<open>Phases\<close>

definition showStartScreen :: "game \<Rightarrow> game" where
  "showStartScreen s = s\<lparr>gameState := Menu\<rparr>"

definition selectDifficulty :: "game \<Rightarrow> string \<Rightarrow> game" where
  "selectDifficulty s lvl = s\<lparr>difficulty := lvl\<rparr>"

definition startGame :: "game \<Rightarrow> int \<Rightarrow> (nat \<Rightarrow> real) \<Rightarrow> error option \<times> game" where
  "startGame s now rnd =
     (case initializeGame (s\<lparr>gameState := Playing\<rparr>) now rnd of
        (Some e, s1) \<Rightarrow> (Some e, s1)
      | (None, s1) \<Rightarrow> (None, startTimer s1))"

definition togglePause :: "game \<Rightarrow> game" where
  "togglePause s = (if gameState s \<noteq> Playing then s else s\<lparr>isPaused := \<not> isPaused s\<rparr>)"

definition restartGame :: "game \<Rightarrow> int \<Rightarrow> (nat \<Rightarrow> real) \<Rightarrow> error option \<times> game" where
  "restartGame s now rnd = startGame s now rnd"

definition playAgain :: "game \<Rightarrow> int \<Rightarrow> (nat \<Rightarrow> real) \<Rightarrow> error option \<times> game" where
  "playAgain s now rnd = startGame (s\<lparr>level := level s + 1\<rparr>) now rnd"

definition newGame :: "game \<Rightarrow> game" where
  "newGame s = showStartScreen (s\<lparr>level := 1\<rparr>)"

definition resizeCanvas :: "game \<Rightarrow> real \<Rightarrow> real \<Rightarrow> game" where
  "resizeCanvas s containerWidth containerHeight =
     s\<lparr>canvasWidth := min (containerWidth - 40) 800,
       canvasHeight := min (containerHeight - 40) 600\<rparr>"

subsection \<open>The best score in \<open>localStorage\<close>\<close>

text \<open>\<open>Number.prototype.toString\<close> on an integer: its decimal digits, with a sign when negative.\<close>

definition digitChar :: "nat \<Rightarrow> char" where
  "digitChar d = ''0123456789'' ! d"

fun natToString :: "nat \<Rightarrow> string" where
  "natToString n =
     (if n < 10 then [digitChar n] else natToString (n div 10) @ [digitChar (n mod 10)])"

definition numberToString :: "int \<Rightarrow> string" where
  "numberToString n =
     (if n < 0 then CHR ''-'' # natToString (nat (- n)) else natToString (nat n))"

text \<open>
  The conversion of a string to a number that \<open>this.score > currentBest\<close> performs,
  for the decimal integer literals (an optional minus sign and digits; the empty string
  is 0). \<open>None\<close> stands for NaN. Other numeric literals (a fraction, an exponent, a
  hexadecimal prefix, surrounding blanks) are not covered, and \<open>saveBestScore\<close> never
  writes one.
\<close>

definition digitVal :: "char \<Rightarrow> nat option" where
  "digitVal c = (if c \<in> set ''0123456789'' then Some (of_char c - 48) else None)"

fun digitsToNat :: "string \<Rightarrow> nat \<Rightarrow> nat option" where
  "digitsToNat [] acc = Some acc"
| "digitsToNat (c # cs) acc =
     (case digitVal c of None \<Rightarrow> None | Some d \<Rightarrow> digitsToNat cs (10 * acc + d))"

definition stringToNumber :: "string \<Rightarrow> int option" where
  "stringToNumber str =
     (case str of
        [] \<Rightarrow> Some 0
      | c # cs \<Rightarrow>
          if c = CHR ''-''
          then (if cs = [] then None else map_option (\<lambda>n. - int n) (digitsToNat cs 0))
          else map_option int (digitsToNat str 0))"

definition bestScoreKey :: "string \<Rightarrow> string" where
  "bestScoreKey lvl = ''bestScore_'' @ lvl"

text \<open>
  \<open>localStorage.getItem(key) || 0\<close>, as a number: a missing key gives \<open>null\<close> and the
  empty string is falsy, so both give 0.
\<close>

definition currentBest :: "game \<Rightarrow> string \<Rightarrow> int option" where
  "currentBest s lvl =
     (case localStorage s (bestScoreKey lvl) of
        None \<Rightarrow> Some 0
      | Some v \<Rightarrow> if v = [] then Some 0 else stringToNumber v)"

text \<open>\<open>saveBestScore\<close>: a comparison with NaN is false.\<close>

definition saveBestScore :: "game \<Rightarrow> game" where
  "saveBestScore s =
     (if (case currentBest s (difficulty s) of None \<Rightarrow> False | Some best \<Rightarrow> score s > best)
      then s\<lparr>localStorage :=
               (localStorage s)(bestScoreKey (difficulty s) \<mapsto> numberToString (score s))\<rparr>
      else s)"

definition gameComplete :: "game \<Rightarrow> game" where
  "gameComplete s =
     (let s1 = s\<lparr>gameState := Completed\<rparr>;
          timeBonus = max 0 (1000 - (gameTime s1 div 1000) * 10)
      in saveBestScore (s1\<lparr>score := score s1 + timeBonus\<rparr>))"

subsection \<open>Keyboard\<close>

datatype keyCode = Space | Escape | OtherKey

definition handleKeyPress :: "game \<Rightarrow> keyCode \<Rightarrow> game" where
  "handleKeyPress s code =
     (case code of
        Space \<Rightarrow> if gameState s = Playing then togglePause s else s
      | Escape \<Rightarrow> if gameState s = Playing then showStartScreen s else s
      | OtherKey \<Rightarrow> s)"

subsection \<open>The object and the events it receives\<close>

text \<open>
  The object as the constructor and \<open>setupCanvas\<close> leave it, for a container of the given
  size and a store left by earlier sessions.
\<close>

definition defaultDifficulties :: "(string \<times> config) list" where
  "defaultDifficulties =
     [(''easy'', \<lparr>rows = 2, cols = 3, timeBonus = 50\<rparr>),
      (''medium'', \<lparr>rows = 3, cols = 4, timeBonus = 100\<rparr>),
      (''hard'', \<lparr>rows = 4, cols = 4, timeBonus = 150\<rparr>),
      (''expert'', \<lparr>rows = 4, cols = 6, timeBonus = 200\<rparr>)]"

definition defaultCardSymbols :: "symbol list" where
  "defaultCardSymbols =
     [127919, 127918, 127922, 127914, 127912, 127917, 127925, 127928,
      128640, 127775, 11088, 128142, 128293, 9889, 127752, 129412,
      128049, 128054, 128045, 128057, 128048, 129418, 128059, 128060,
      127822, 127818, 127819, 127820, 127815, 127827, 129373, 127825]"

definition newObject :: "real \<Rightarrow> real \<Rightarrow> (string \<rightharpoonup> string) \<Rightarrow> game" where
  "newObject containerWidth containerHeight store =
     \<lparr>canvasWidth = min (containerWidth - 40) 800,
      canvasHeight = min (containerHeight - 40) 600,
      gameState = Loading,
      cards = [],
      flippedCards = [],
      matchedPairs = 0,
      score = 0,
      moves = 0,
      level = 1,
      startTime = None,
      gameTime = 0,
      difficulty = ''medium'',
      isPaused = False,
      difficulties = defaultDifficulties,
      cardSymbols = defaultCardSymbols,
      timerInterval = None,
      intervals = [],
      nextHandle = 1,
      pendingCheckMatch = 0,
      pendingGameComplete = 0,
      localStorage = store\<rparr>"

text \<open>
  What can happen to the object: the listeners of \<open>setupEventListeners\<close> and
  \<open>setupCanvas\<close>, the end of \<open>init\<close>, the handlers of \<open>main.js\<close> (tab hidden, Escape,
  unload), and the timer callbacks. A timeout fires only while one is pending, the tick only
  while an interval timer is live. An exception thrown by a handler leaves the object
  as it was at the throw.
\<close>

datatype event =
    InitDone
  | StartGameBtn int "nat \<Rightarrow> real"
  | PauseBtn
  | RestartBtn int "nat \<Rightarrow> real"
  | MainMenuBtn
  | PlayAgainBtn int "nat \<Rightarrow> real"
  | NewGameBtn
  | DifficultyBtn string
  | CanvasClick real real domRect int
  | KeyDown keyCode
  | WindowResize real real
  | TabHidden
  | CheckMatchTimeout
  | GameCompleteTimeout
  | IntervalTick int
  | BeforeUnload

fun step :: "game \<Rightarrow> event \<Rightarrow> game" where
  "step s InitDone = showStartScreen s"
| "step s (StartGameBtn now rnd) = snd (startGame s now rnd)"
| "step s PauseBtn = togglePause s"
| "step s (RestartBtn now rnd) = snd (restartGame s now rnd)"
| "step s MainMenuBtn = showStartScreen s"
| "step s (PlayAgainBtn now rnd) = snd (playAgain s now rnd)"
| "step s NewGameBtn = newGame s"
| "step s (DifficultyBtn lvl) = selectDifficulty s lvl"
| "step s (CanvasClick clientX clientY rect now) = handleCanvasClick s clientX clientY rect now"
| "step s (KeyDown code) = handleKeyPress s code"
| "step s (WindowResize w h) = resizeCanvas s w h"
| "step s TabHidden = (if gameState s = Playing \<and> \<not> isPaused s then togglePause s else s)"
| "step s CheckMatchTimeout =
     (if pendingCheckMatch s = 0 then s
      else snd (checkMatch (s\<lparr>pendingCheckMatch := pendingCheckMatch s - 1\<rparr>)))"
| "step s GameCompleteTimeout =
     (if pendingGameComplete s = 0 then s
      else gameComplete (s\<lparr>pendingGameComplete := pendingGameComplete s - 1\<rparr>))"
| "step s (IntervalTick now) = (if intervals s = [] then s else tick s now)"
| "step s BeforeUnload = destroy s"

fun validEvent :: "event \<Rightarrow> bool" where
  "validEvent (StartGameBtn now rnd) = validRandom rnd"
| "validEvent (RestartBtn now rnd) = validRandom rnd"
| "validEvent (PlayAgainBtn now rnd) = validRandom rnd"
| "validEvent _ = True"

inductive reachable :: "game \<Rightarrow> bool" where
  reachable_new: "reachable (newObject containerWidth containerHeight store)"
| reachable_step: "reachable s \<Longrightarrow> validEvent ev \<Longrightarrow> reachable (step s ev)"

subsection \<open>Predicates of the invariants\<close>

text \<open>No point of the canvas is inside two cards, by the hit test of \<open>handleCardClick\<close>.\<close>

definition disjointCards :: "card list \<Rightarrow> bool" where
  "disjointCards cs \<longleftrightarrow>
     (\<forall>i j x y. i < length cs \<and> j < length cs \<and> i \<noteq> j \<longrightarrow>
        \<not> (hit (cs ! i) x y \<and> hit (cs ! j) x y))"

text \<open>Every reference in the flip buffer points to a card of the board.\<close>

definition refsValid :: "game \<Rightarrow> bool" where
  "refsValid s \<longleftrightarrow> (\<forall>c \<in> set (flippedCards s). c < length (cards s))"

text \<open>
  No interval timer is live but the one whose handle \<open>timerInterval\<close> holds, and handles
  are positive and below the next one to be given out.
\<close>

definition handlesOk :: "nat option \<Rightarrow> nat list \<Rightarrow> nat \<Rightarrow> bool" where
  "handlesOk current live next \<longleftrightarrow>
     0 < next \<and>
     (case current of
        None \<Rightarrow> live = []
      | Some h \<Rightarrow> 0 < h \<and> h < next \<and> (live = [h] \<or> live = []))"

definition timerInv :: "game \<Rightarrow> bool" where
  "timerInv s \<longleftrightarrow> handlesOk (timerInterval s) (intervals s) (nextHandle s)"

subsection \<open>A game of the easy difficulty, for the worked examples\<close>

text \<open>
  \<open>zeroRandom\<close> is a random source that always returns 0. \<open>demoNew\<close> is a new object on
  a 700 by 500 container with the easy difficulty selected. \<open>demoGame\<close> is the object
  right after \<open>startGame\<close> on it with that random source (lemma \<open>demo_start\<close>): the
  board is 660 by 460, the cards are 190 by 190, and the pairs are the cards 0 and 3,
  1 and 4, 2 and 5. \<open>demoFlipped a b\<close> is that game 2.5 seconds later, after the cards
  \<open>a\<close> and \<open>b\<close> have been clicked (lemma \<open>demoFlipped_clicks\<close>).
\<close>

definition zeroRandom :: "nat \<Rightarrow> real" where
  "zeroRandom i = 0"

definition demoNew :: game where
  "demoNew = (newObject 700 500 Map.empty)\<lparr>difficulty := ''easy''\<rparr>"

definition demoCard :: "nat \<Rightarrow> symbol \<Rightarrow> card" where
  "demoCard i sm =
     \<lparr>card_id = i, symbol = Some sm,
      card_x = 30 + real (i mod 3) * 200, card_y = 30 + real (i div 3) * 200,
      width = 190, height = 190, isFlipped = False, isMatched = False, flipTime = 0\<rparr>"

definition demoGame :: game where
  "demoGame =
     \<lparr>canvasWidth = 660, canvasHeight = 460, gameState = Playing,
      cards = [demoCard 0 127918, demoCard 1 127922, demoCard 2 127919,
               demoCard 3 127918, demoCard 4 127922, demoCard 5 127919],
      flippedCards = [], matchedPairs = 0, score = 0, moves = 0, level = 1,
      startTime = Some 0, gameTime = 0, difficulty = ''easy'', isPaused = False,
      difficulties = defaultDifficulties, cardSymbols = defaultCardSymbols,
      timerInterval = Some 1, intervals = [1], nextHandle = 2,
      pendingCheckMatch = 0, pendingGameComplete = 0, localStorage = Map.empty\<rparr>"

definition demoFlipped :: "nat \<Rightarrow> nat \<Rightarrow> game" where
  "demoFlipped a b =
     demoGame\<lparr>cards := (cards demoGame)
                  [a := (cards demoGame ! a)\<lparr>isFlipped := True, flipTime := 2000\<rparr>,
                   b := (cards demoGame ! b)\<lparr>isFlipped := True, flipTime := 2400\<rparr>],
               flippedCards := [a, b], moves := 1, pendingCheckMatch := 1, gameTime := 2500\<rparr>"

definition demoRect :: domRect where
  "demoRect = \<lparr>rect_left = 0, rect_top = 0, rect_width = 660, rect_height = 460\<rparr>"

text \<open>\<open>demoLast\<close>: two pairs are matched and the last pair, the cards 2 and 5, is face up.\<close>

definition demoLast :: game where
  "demoLast =
     (demoFlipped 2 5)
       \<lparr>cards := map (\<lambda>c. if card_id c \<in> {0, 1, 3, 4}
                           then c\<lparr>isFlipped := True, isMatched := True\<rparr> else c)
                   (cards (demoFlipped 2 5)),
        matchedPairs := 2, score := 280, moves := 3\<rparr>"

text \<open>\<open>demoScored\<close>: the demo game with 1400 points, over a stored best score of 900.\<close>

definition demoScored :: game where
  "demoScored =
     demoGame\<lparr>score := 1400, localStorage := [bestScoreKey ''easy'' \<mapsto> ''900'']\<rparr>"

text \<open>\<open>demoOne\<close>: the demo game after a click on the card 0.\<close>

definition demoOne :: game where
  "demoOne = step demoGame (CanvasClick 100 100 demoRect 2000)"

text \<open>\<open>demoShort\<close>: the new object with a pool of two symbols, one fewer than easy needs.\<close>

definition demoShort :: game where
  "demoShort = (showStartScreen demoNew)\<lparr>cardSymbols := [127919, 127918]\<rparr>"

section \<open>Properties\<close>

declare zeroRandom_def [simp]

subsection \<open>The worked examples are states of the program\<close>

lemma demo_start:
  "snd (startGame demoNew 0 zeroRandom) = demoGame"
  by (simp add: demoNew_def startGame_def initializeGame_def createCards_def newObject_def
      defaultDifficulties_def defaultCardSymbols_def shuffleArray_def swap_def makeCard_def
      startTimer_def demoGame_def demoCard_def upt_rec Let_def)

lemma demoFlipped_clicks:
  "demoFlipped 0 3 =
     ticks (handleCanvasClick (handleCanvasClick demoGame 100 100 demoRect 2000)
              100 300 demoRect 2400) [2500]"
  by (simp add: demoFlipped_def demoGame_def demoCard_def demoRect_def handleCanvasClick_def
      handleCardClick_def findCard_def hit_def flipCard_def ticks_def tick_def upt_rec Let_def)

subsection \<open>Resolution of a matching pair\<close>

text \<open>
  Claim C1. In a game in the Playing phase whose flip buffer holds exactly two cards with
  equal symbols, \<open>checkMatch\<close> throws nothing, marks both cards matched, increments
  \<open>matchedPairs\<close> by 1, empties the flip buffer and adds to the score exactly
  \<open>max(10, 100 + max(0, timeBonus - floor(gameTime/1000)) - max(0, moves * 5))\<close>, where
  \<open>timeBonus\<close> is that of the current difficulty. Resolution leaves \<open>moves\<close> as it is, and
  the flip that put the second card into the buffer has already incremented it, so
  \<open>moves\<close> counts the pair being resolved.
\<close>

theorem checkMatch_match:
  assumes "gameState s = Playing"
    and "flippedCards s = [c1, c2]"
    and "c1 < length (cards s)" and "c2 < length (cards s)"
    and "symbol (cards s ! c1) = symbol (cards s ! c2)"
    and "map_of (difficulties s) (difficulty s) = Some config"
  shows "fst (checkMatch s) = None
     \<and> isMatched (cards (snd (checkMatch s)) ! c1)
     \<and> isMatched (cards (snd (checkMatch s)) ! c2)
     \<and> matchedPairs (snd (checkMatch s)) = matchedPairs s + 1
     \<and> flippedCards (snd (checkMatch s)) = []
     \<and> score (snd (checkMatch s)) = score s +
           max 10 (100 + max 0 (timeBonus config - gameTime s div 1000) - max 0 (moves s * 5))
     \<and> moves (snd (checkMatch s)) = moves s
     \<and> (\<forall>s0 now. flippedCards s0 = [c1] \<longrightarrow>
            flippedCards (flipCard s0 c2 now) = [c1, c2] \<and>
            moves (flipCard s0 c2 now) = moves s0 + 1)"
  using assms
  by (simp add: checkMatch_def calculateScore_def setMatched_def flipCard_def Let_def
      nth_list_update)

theorem checkMatch_match_witness:
  "gameState (demoFlipped 0 3) = Playing
     \<and> flippedCards (demoFlipped 0 3) = [0, 3]
     \<and> fst (checkMatch (demoFlipped 0 3)) = None
     \<and> isMatched (cards (snd (checkMatch (demoFlipped 0 3))) ! 0)
     \<and> isMatched (cards (snd (checkMatch (demoFlipped 0 3))) ! 3)
     \<and> matchedPairs (snd (checkMatch (demoFlipped 0 3))) = 1
     \<and> flippedCards (snd (checkMatch (demoFlipped 0 3))) = []
     \<and> score (snd (checkMatch (demoFlipped 0 3))) = 143
     \<and> moves (flipCard (demoGame\<lparr>flippedCards := [0]\<rparr>) 3 2400) = 1"
proof -
  have h1: "gameState (demoFlipped 0 3) = Playing"
    and h2: "flippedCards (demoFlipped 0 3) = [0, 3]"
    and h3: "0 < length (cards (demoFlipped 0 3))"
    and h4: "3 < length (cards (demoFlipped 0 3))"
    and h5: "symbol (cards (demoFlipped 0 3) ! 0) = symbol (cards (demoFlipped 0 3) ! 3)"
    and h6: "map_of (difficulties (demoFlipped 0 3)) (difficulty (demoFlipped 0 3))
               = Some \<lparr>rows = 2, cols = 3, timeBonus = 50\<rparr>"
    by (simp_all add: demoFlipped_def demoGame_def demoCard_def defaultDifficulties_def)
  have h7: "flippedCards (demoGame\<lparr>flippedCards := [0]\<rparr>) = [0]"
    by simp
  have g: "moves (demoFlipped 0 3) = 1" "score (demoFlipped 0 3) = 0"
    "gameTime (demoFlipped 0 3) = 2500" "matchedPairs (demoFlipped 0 3) = 0"
    "moves (demoGame\<lparr>flippedCards := [0]\<rparr>) = 0"
    by (simp_all add: demoFlipped_def demoGame_def)
  from checkMatch_match [OF h1 h2 h3 h4 h5 h6] h1 h2 h7 g show ?thesis
    by simp
qed

subsection \<open>What the tick and the best-score update leave alone\<close>

lemma tick_fields [simp]:
  "score (tick s now) = score s"
  "moves (tick s now) = moves s"
  "matchedPairs (tick s now) = matchedPairs s"
  "cards (tick s now) = cards s"
  "flippedCards (tick s now) = flippedCards s"
  "gameState (tick s now) = gameState s"
  "isPaused (tick s now) = isPaused s"
  "pendingGameComplete (tick s now) = pendingGameComplete s"
  "pendingCheckMatch (tick s now) = pendingCheckMatch s"
  "intervals (tick s now) = intervals s"
  "timerInterval (tick s now) = timerInterval s"
  "nextHandle (tick s now) = nextHandle s"
  "difficulty (tick s now) = difficulty s"
  "difficulties (tick s now) = difficulties s"
  "localStorage (tick s now) = localStorage s"
  by (simp_all add: tick_def)

lemma ticks_fields [simp]:
  "score (ticks s nows) = score s"
  "moves (ticks s nows) = moves s"
  "matchedPairs (ticks s nows) = matchedPairs s"
  "cards (ticks s nows) = cards s"
  "flippedCards (ticks s nows) = flippedCards s"
  "gameState (ticks s nows) = gameState s"
  "isPaused (ticks s nows) = isPaused s"
  "pendingGameComplete (ticks s nows) = pendingGameComplete s"
  "pendingCheckMatch (ticks s nows) = pendingCheckMatch s"
  "intervals (ticks s nows) = intervals s"
  "timerInterval (ticks s nows) = timerInterval s"
  "nextHandle (ticks s nows) = nextHandle s"
  "difficulty (ticks s nows) = difficulty s"
  "difficulties (ticks s nows) = difficulties s"
  "localStorage (ticks s nows) = localStorage s"
  unfolding ticks_def by (induction nows arbitrary: s; simp)+

lemma saveBestScore_fields [simp]:
  "score (saveBestScore s) = score s"
  "gameState (saveBestScore s) = gameState s"
  "pendingGameComplete (saveBestScore s) = pendingGameComplete s"
  "intervals (saveBestScore s) = intervals s"
  "timerInterval (saveBestScore s) = timerInterval s"
  "nextHandle (saveBestScore s) = nextHandle s"
  "cards (saveBestScore s) = cards s"
  "flippedCards (saveBestScore s) = flippedCards s"
  by (simp_all add: saveBestScore_def)

subsection \<open>Resolution of a pair that does not match\<close>

text \<open>
  Claim C3. In a game in the Playing phase whose flip buffer holds exactly two unmatched
  cards with different symbols, \<open>checkMatch\<close> throws nothing, turns both cards face down
  again, leaves both unmatched, leaves \<open>score\<close> and \<open>matchedPairs\<close> as they are and
  empties the flip buffer. Resolution does not change \<open>moves\<close>, and flipping the two
  cards from an empty buffer has raised it by exactly one.
\<close>

theorem checkMatch_mismatch:
  assumes "gameState s = Playing"
    and "flippedCards s = [c1, c2]"
    and "c1 < length (cards s)" and "c2 < length (cards s)"
    and "symbol (cards s ! c1) \<noteq> symbol (cards s ! c2)"
    and "\<not> isMatched (cards s ! c1)" and "\<not> isMatched (cards s ! c2)"
  shows "fst (checkMatch s) = None
     \<and> \<not> isFlipped (cards (snd (checkMatch s)) ! c1)
     \<and> \<not> isFlipped (cards (snd (checkMatch s)) ! c2)
     \<and> \<not> isMatched (cards (snd (checkMatch s)) ! c1)
     \<and> \<not> isMatched (cards (snd (checkMatch s)) ! c2)
     \<and> score (snd (checkMatch s)) = score s
     \<and> matchedPairs (snd (checkMatch s)) = matchedPairs s
     \<and> flippedCards (snd (checkMatch s)) = []
     \<and> moves (snd (checkMatch s)) = moves s
     \<and> (\<forall>s0 t1 t2. flippedCards s0 = [] \<longrightarrow>
            flippedCards (flipCard (flipCard s0 c1 t1) c2 t2) = [c1, c2] \<and>
            moves (flipCard (flipCard s0 c1 t1) c2 t2) = moves s0 + 1)"
  using assms
  by (simp add: checkMatch_def unflip_def flipCard_def Let_def nth_list_update)

theorem checkMatch_mismatch_witness:
  "gameState (demoFlipped 0 1) = Playing
     \<and> flippedCards (demoFlipped 0 1) = [0, 1]
     \<and> symbol (cards (demoFlipped 0 1) ! 0) \<noteq> symbol (cards (demoFlipped 0 1) ! 1)
     \<and> fst (checkMatch (demoFlipped 0 1)) = None
     \<and> \<not> isFlipped (cards (snd (checkMatch (demoFlipped 0 1))) ! 0)
     \<and> \<not> isFlipped (cards (snd (checkMatch (demoFlipped 0 1))) ! 1)
     \<and> \<not> isMatched (cards (snd (checkMatch (demoFlipped 0 1))) ! 0)
     \<and> \<not> isMatched (cards (snd (checkMatch (demoFlipped 0 1))) ! 1)
     \<and> score (snd (checkMatch (demoFlipped 0 1))) = 0
     \<and> matchedPairs (snd (checkMatch (demoFlipped 0 1))) = 0
     \<and> flippedCards (snd (checkMatch (demoFlipped 0 1))) = []
     \<and> moves (snd (checkMatch (demoFlipped 0 1))) = 1
     \<and> moves (flipCard (flipCard demoGame 0 2000) 1 2400) = 1"
proof -
  have h1: "gameState (demoFlipped 0 1) = Playing"
    and h2: "flippedCards (demoFlipped 0 1) = [0, 1]"
    and h3: "0 < length (cards (demoFlipped 0 1))"
    and h4: "1 < length (cards (demoFlipped 0 1))"
    and h5: "symbol (cards (demoFlipped 0 1) ! 0) \<noteq> symbol (cards (demoFlipped 0 1) ! 1)"
    and h6: "\<not> isMatched (cards (demoFlipped 0 1) ! 0)"
    and h7: "\<not> isMatched (cards (demoFlipped 0 1) ! 1)"
    by (simp_all add: demoFlipped_def demoGame_def demoCard_def)
  have h8: "flippedCards demoGame = []"
    by (simp add: demoGame_def)
  have g: "moves (demoFlipped 0 1) = 1" "score (demoFlipped 0 1) = 0"
    "matchedPairs (demoFlipped 0 1) = 0" "moves demoGame = 0"
    by (simp_all add: demoFlipped_def demoGame_def)
  from checkMatch_mismatch [OF h1 h2 h3 h4 h5 h6 h7] h1 h2 h5 h8 g show ?thesis
    by simp
qed

subsection \<open>Completion\<close>

text \<open>
  Claim C4. When resolving a match makes \<open>matchedPairs\<close> equal to half the number of
  cards, \<open>checkMatch\<close> schedules \<open>gameComplete\<close> exactly once (the phase is still the
  old one during the delay). When that timeout fires, after any number of ticks, the
  phase becomes Completed, the score grows by exactly
  \<open>max(0, 1000 - floor(gameTime/1000) * 10)\<close> on top of the score the matches have
  accumulated, and no further completion is pending from this match.
\<close>

theorem completion_bonus_once:
  assumes "flippedCards s = [c1, c2]"
    and "c1 < length (cards s)" and "c2 < length (cards s)"
    and "symbol (cards s ! c1) = symbol (cards s ! c2)"
    and "map_of (difficulties s) (difficulty s) = Some config"
    and "2 * (matchedPairs s + 1) = int (length (cards s))"
  shows "fst (checkMatch s) = None
     \<and> pendingGameComplete (snd (checkMatch s)) = pendingGameComplete s + 1
     \<and> gameState (snd (checkMatch s)) = gameState s
     \<and> (\<forall>nows.
          gameState (step (ticks (snd (checkMatch s)) nows) GameCompleteTimeout) = Completed
        \<and> score (step (ticks (snd (checkMatch s)) nows) GameCompleteTimeout) =
            score (snd (checkMatch s))
            + max 0 (1000 - (gameTime (ticks (snd (checkMatch s)) nows) div 1000) * 10)
        \<and> pendingGameComplete (step (ticks (snd (checkMatch s)) nows) GameCompleteTimeout) =
            pendingGameComplete s)"
proof -
  have a: "fst (checkMatch s) = None"
    and b: "pendingGameComplete (snd (checkMatch s)) = pendingGameComplete s + 1"
    and c: "gameState (snd (checkMatch s)) = gameState s"
    using assms
    by (simp_all add: checkMatch_def calculateScore_def setMatched_def Let_def)
  have d: "gameState (step (ticks (snd (checkMatch s)) nows) GameCompleteTimeout) = Completed
        \<and> score (step (ticks (snd (checkMatch s)) nows) GameCompleteTimeout) =
            score (snd (checkMatch s))
            + max 0 (1000 - (gameTime (ticks (snd (checkMatch s)) nows) div 1000) * 10)
        \<and> pendingGameComplete (step (ticks (snd (checkMatch s)) nows) GameCompleteTimeout) =
            pendingGameComplete s" for nows
    using b by (simp add: gameComplete_def Let_def)
  from a b c d show ?thesis by blast
qed

theorem completion_bonus_once_witness:
  "2 * (matchedPairs demoLast + 1) = int (length (cards demoLast))
     \<and> fst (checkMatch demoLast) = None
     \<and> pendingGameComplete (snd (checkMatch demoLast)) = 1
     \<and> gameState (snd (checkMatch demoLast)) = Playing
     \<and> gameState (step (ticks (snd (checkMatch demoLast)) [3000]) GameCompleteTimeout)
         = Completed
     \<and> score (step (ticks (snd (checkMatch demoLast)) [3000]) GameCompleteTimeout)
         = score (snd (checkMatch demoLast)) + 970
     \<and> pendingGameComplete (step (ticks (snd (checkMatch demoLast)) [3000]) GameCompleteTimeout)
         = 0"
proof -
  have h1: "flippedCards demoLast = [2, 5]"
    and h2: "2 < length (cards demoLast)"
    and h3: "5 < length (cards demoLast)"
    and h4: "symbol (cards demoLast ! 2) = symbol (cards demoLast ! 5)"
    and h5: "map_of (difficulties demoLast) (difficulty demoLast)
               = Some \<lparr>rows = 2, cols = 3, timeBonus = 50\<rparr>"
    and h6: "2 * (matchedPairs demoLast + 1) = int (length (cards demoLast))"
    by (simp_all add: demoLast_def demoFlipped_def demoGame_def demoCard_def
        defaultDifficulties_def)
  have g: "pendingGameComplete demoLast = 0" "gameState demoLast = Playing"
    by (simp_all add: demoLast_def demoFlipped_def demoGame_def)
  have t: "gameTime (ticks (snd (checkMatch demoLast)) [3000]) = 3000"
    using h1 h2 h3 h4 h5 h6
    by (simp add: ticks_def tick_def checkMatch_def calculateScore_def Let_def
        demoLast_def demoFlipped_def demoGame_def)
  note r = completion_bonus_once [OF h1 h2 h3 h4 h5 h6]
  from r have r1: "fst (checkMatch demoLast) = None"
    "pendingGameComplete (snd (checkMatch demoLast)) = pendingGameComplete demoLast + 1"
    "gameState (snd (checkMatch demoLast)) = gameState demoLast"
    by blast+
  from r have r2:
    "gameState (step (ticks (snd (checkMatch demoLast)) [3000]) GameCompleteTimeout) = Completed
     \<and> score (step (ticks (snd (checkMatch demoLast)) [3000]) GameCompleteTimeout) =
         score (snd (checkMatch demoLast))
         + max 0 (1000 - (gameTime (ticks (snd (checkMatch demoLast)) [3000]) div 1000) * 10)
     \<and> pendingGameComplete (step (ticks (snd (checkMatch demoLast)) [3000]) GameCompleteTimeout)
         = pendingGameComplete demoLast"
    by blast
  from r1 r2 h6 g t show ?thesis
    by (simp del: step.simps)
qed

subsection \<open>Starting a game while the pause flag is set\<close>

text \<open>
  Claim C10. \<open>startGame\<close> resets \<open>score\<close>, \<open>moves\<close>, \<open>matchedPairs\<close> and the flip buffer
  and puts the game into the Playing phase, but it does not write \<open>isPaused\<close>: started
  with the flag set, the game still has it set, every canvas click leaves the object
  unchanged, and \<open>togglePause\<close> clears the flag. The same holds for \<open>restartGame\<close> and
  for a game started after \<open>showStartScreen\<close>.
\<close>

theorem startGame_keeps_paused:
  assumes "isPaused s"
  shows "isPaused (snd (startGame s now rnd))
     \<and> gameState (snd (startGame s now rnd)) = Playing
     \<and> score (snd (startGame s now rnd)) = 0
     \<and> moves (snd (startGame s now rnd)) = 0
     \<and> matchedPairs (snd (startGame s now rnd)) = 0
     \<and> flippedCards (snd (startGame s now rnd)) = []
     \<and> (\<forall>clientX clientY rect t.
           handleCanvasClick (snd (startGame s now rnd)) clientX clientY rect t
             = snd (startGame s now rnd))
     \<and> \<not> isPaused (togglePause (snd (startGame s now rnd)))
     \<and> isPaused (snd (restartGame s now rnd))
     \<and> isPaused (snd (startGame (showStartScreen s) now rnd))"
  using assms
  by (simp add: startGame_def restartGame_def showStartScreen_def initializeGame_def
      createCards_def startTimer_def clearInterval_def handleCanvasClick_def togglePause_def
      Let_def split: option.splits)

theorem startGame_keeps_paused_witness:
  "isPaused (demoLast\<lparr>isPaused := True\<rparr>)
     \<and> isPaused (snd (startGame (demoLast\<lparr>isPaused := True\<rparr>) 9000 zeroRandom))
     \<and> score (snd (startGame (demoLast\<lparr>isPaused := True\<rparr>) 9000 zeroRandom)) = 0
     \<and> handleCanvasClick (snd (startGame (demoLast\<lparr>isPaused := True\<rparr>) 9000 zeroRandom))
           100 100 demoRect 9500
         = snd (startGame (demoLast\<lparr>isPaused := True\<rparr>) 9000 zeroRandom)"
proof -
  have h: "isPaused (demoLast\<lparr>isPaused := True\<rparr>)"
    by simp
  from startGame_keeps_paused [OF h, of 9000 zeroRandom] h show ?thesis
    by blast
qed

subsection \<open>Pausing and the elapsed time\<close>

lemma togglePause_twice: "togglePause (togglePause s) = s"
  by (simp add: togglePause_def)

text \<open>
  Claim C7. Two calls of \<open>togglePause\<close> restore the object, and a tick while the game is
  paused leaves \<open>gameTime\<close> alone. But the tick computes \<open>gameTime\<close> as
  \<open>Date.now() - startTime\<close> and nothing moves \<open>startTime\<close> on resume: in the game below,
  started at time 0, paused at 1000 and resumed at 6000, the tick at 6100 sets the
  elapsed time to 6100, which includes the 5000 ms spent paused.
\<close>

theorem pause_interval_counted:
  "gameTime (tick demoGame 1000) = 1000
   \<and> gameTime (tick (togglePause (tick demoGame 1000)) 3000) = 1000
   \<and> togglePause (togglePause (tick demoGame 1000)) = tick demoGame 1000
   \<and> gameTime (tick (togglePause (tick (togglePause (tick demoGame 1000)) 3000)) 6100) = 6100"
  by (simp add: tick_def togglePause_def demoGame_def)

subsection \<open>The best score\<close>

text \<open>Reading back what \<open>toString\<close> wrote gives the number that was written.\<close>

declare natToString.simps [simp del]

lemma digit_cases: "d < (10::nat) \<Longrightarrow> d = 0 \<or> d = 1 \<or> d = 2 \<or> d = 3 \<or> d = 4 \<or> d = 5 \<or> d = 6 \<or> d = 7 \<or> d = 8 \<or> d = 9"
  by arith

lemma digitVal_digitChar: "d < 10 \<Longrightarrow> digitVal (digitChar d) = Some d"
  using digit_cases [of d] by (auto simp: digitVal_def digitChar_def)

lemma digitChar_not_minus: "d < 10 \<Longrightarrow> digitChar d \<noteq> CHR ''-''"
  using digit_cases [of d] by (auto simp: digitChar_def)

lemma digitsToNat_append:
  "digitsToNat (xs @ ys) acc =
     (case digitsToNat xs acc of None \<Rightarrow> None | Some a \<Rightarrow> digitsToNat ys a)"
  by (induction xs arbitrary: acc) (auto split: option.splits)

lemma digitsToNat_natToString: "digitsToNat (natToString n) 0 = Some n"
proof (induction n rule: natToString.induct)
  case (1 n)
  show ?case
  proof (cases "n < 10")
    case True
    then show ?thesis
      by (simp add: natToString.simps [of n] digitVal_digitChar)
  next
    case False
    with 1 have "digitsToNat (natToString (n div 10)) 0 = Some (n div 10)"
      by simp
    with False show ?thesis
      by (simp add: natToString.simps [of n] digitsToNat_append digitVal_digitChar)
  qed
qed

lemma natToString_head:
  "\<exists>c cs. natToString n = c # cs \<and> c \<noteq> CHR ''-''"
proof (induction n rule: natToString.induct)
  case (1 n)
  show ?case
  proof (cases "n < 10")
    case True
    then show ?thesis
      by (simp add: natToString.simps [of n] digitChar_not_minus)
  next
    case False
    with 1 obtain c cs where "natToString (n div 10) = c # cs" "c \<noteq> CHR ''-''"
      by auto
    with False show ?thesis
      by (simp add: natToString.simps [of n])
  qed
qed

lemma numberToString_nonempty: "numberToString n \<noteq> []"
  using natToString_head [of "nat n"] by (auto simp: numberToString_def)

lemma stringToNumber_numberToString: "stringToNumber (numberToString n) = Some n"
proof (cases "n < 0")
  case True
  obtain c cs where "natToString (nat (- n)) = c # cs"
    using natToString_head by blast
  with True digitsToNat_natToString [of "nat (- n)"] show ?thesis
    by (simp add: stringToNumber_def numberToString_def)
next
  case False
  obtain c cs where "natToString (nat n) = c # cs" "c \<noteq> CHR ''-''"
    using natToString_head by blast
  with False digitsToNat_natToString [of "nat n"] show ?thesis
    by (simp add: stringToNumber_def numberToString_def)
qed

lemma bestScoreKey_inj [simp]: "bestScoreKey a = bestScoreKey b \<longleftrightarrow> a = b"
  by (simp add: bestScoreKey_def)

lemma currentBest_stored:
  "localStorage s (bestScoreKey lvl) = Some (numberToString n) \<Longrightarrow> currentBest s lvl = Some n"
  by (simp add: currentBest_def numberToString_nonempty stringToNumber_numberToString)

text \<open>
  Claim C9. For every difficulty whose stored best score reads as a number \<open>best\<close>
  (nothing stored reads as 0): when the score is greater, \<open>saveBestScore\<close> stores it and
  reading the entry back gives the score; when the score is lower or equal, nothing
  changes; the best score afterwards is the maximum of the two, so it never decreases,
  also across \<open>gameComplete\<close>; the entries of the other difficulties are untouched.
\<close>

theorem saveBestScore_keeps_maximum:
  assumes "currentBest s (difficulty s) = Some best"
  shows "(score s > best \<longrightarrow>
            localStorage (saveBestScore s) (bestScoreKey (difficulty s))
              = Some (numberToString (score s))
          \<and> currentBest (saveBestScore s) (difficulty s) = Some (score s))
     \<and> (score s \<le> best \<longrightarrow> saveBestScore s = s)
     \<and> currentBest (saveBestScore s) (difficulty s) = Some (max best (score s))
     \<and> (\<forall>lvl. lvl \<noteq> difficulty s \<longrightarrow>
            localStorage (saveBestScore s) (bestScoreKey lvl) = localStorage s (bestScoreKey lvl))
     \<and> (\<exists>best'. currentBest (gameComplete s) (difficulty s) = Some best' \<and> best \<le> best')"
proof -
  have diff [simp]: "difficulty (saveBestScore t) = difficulty t" for t
    by (simp add: saveBestScore_def)
  have stored: "score t > b \<Longrightarrow> currentBest t (difficulty t) = Some b \<Longrightarrow>
      localStorage (saveBestScore t) (bestScoreKey (difficulty t)) = Some (numberToString (score t))" for t b
    by (simp add: saveBestScore_def)
  have same: "score t \<le> b \<Longrightarrow> currentBest t (difficulty t) = Some b \<Longrightarrow> saveBestScore t = t" for t b
    by (simp add: saveBestScore_def)
  have mx: "currentBest (saveBestScore t) (difficulty t) = Some (max b (score t))"
    if "currentBest t (difficulty t) = Some b" for t b
  proof (cases "score t > b")
    case True
    from stored [OF True that] have "currentBest (saveBestScore t) (difficulty (saveBestScore t)) = Some (score t)"
      by (simp add: currentBest_stored)
    with True show ?thesis by (simp add: max_def)
  next
    case False
    with same [of t b] that show ?thesis by (simp add: max_def)
  qed
  have other: "lvl \<noteq> difficulty s \<Longrightarrow>
      localStorage (saveBestScore s) (bestScoreKey lvl) = localStorage s (bestScoreKey lvl)" for lvl
    by (simp add: saveBestScore_def)
  let ?t = "s\<lparr>gameState := Completed,
               score := score s + max 0 (1000 - (gameTime s div 1000) * 10)\<rparr>"
  have gc: "gameComplete s = saveBestScore ?t"
    by (simp add: gameComplete_def Let_def)
  have "currentBest ?t (difficulty ?t) = Some best"
    using assms by (simp add: currentBest_def)
  from mx [OF this] have "currentBest (gameComplete s) (difficulty s) = Some (max best (score ?t))"
    by (simp add: gc)
  then have compl: "\<exists>best'. currentBest (gameComplete s) (difficulty s) = Some best' \<and> best \<le> best'"
    by simp
  from stored [of best s] same [of s best] mx [OF assms] other compl assms show ?thesis
    by (auto simp: currentBest_stored)
qed

theorem saveBestScore_keeps_maximum_witness:
  "currentBest demoScored (difficulty demoScored) = Some 900
     \<and> localStorage (saveBestScore demoScored) (bestScoreKey ''easy'') = Some ''1400''
     \<and> currentBest (saveBestScore demoScored) ''easy'' = Some 1400
     \<and> saveBestScore (demoScored\<lparr>score := 900\<rparr>) = demoScored\<lparr>score := 900\<rparr>"
proof -
  have d: "difficulty demoScored = ''easy''" "score demoScored = 1400"
    "difficulty (demoScored\<lparr>score := 900\<rparr>) = ''easy''"
    by (simp_all add: demoScored_def demoGame_def)
  have h: "currentBest demoScored (difficulty demoScored) = Some 900"
    by (simp add: demoScored_def demoGame_def currentBest_def stringToNumber_def
        digitVal_def)
  have h': "currentBest (demoScored\<lparr>score := 900\<rparr>) (difficulty (demoScored\<lparr>score := 900\<rparr>))
              = Some 900"
    using h by (simp add: currentBest_def)
  have n: "numberToString 1400 = ''1400''"
    by (simp add: numberToString_def natToString.simps digitChar_def)
  from saveBestScore_keeps_maximum [OF h] saveBestScore_keeps_maximum [OF h'] h d n
  show ?thesis
    by simp
qed

subsection \<open>The board\<close>

text \<open>The shuffle permutes its argument when every random number is in \<open>[0, 1)\<close>.\<close>

lemma length_shuffleFrom [simp]: "length (shuffleFrom rnd i xs) = length xs"
  by (induction i arbitrary: xs) (simp_all add: swap_def Let_def)

lemma length_shuffleArray [simp]: "length (shuffleArray rnd xs) = length xs"
  by (simp add: shuffleArray_def)

lemma random_index_le:
  assumes "validRandom rnd"
  shows "nat \<lfloor>rnd k * real (k + 1)\<rfloor> \<le> k"
proof -
  from assms have r: "0 \<le> rnd k" "rnd k < 1"
    by (simp_all add: validRandom_def)
  then have "rnd k * real (k + 1) < real (k + 1)"
    by simp
  then have "\<lfloor>rnd k * real (k + 1)\<rfloor> < int (k + 1)"
    by (simp add: floor_less_iff)
  then show ?thesis
    by linarith
qed

lemma mset_shuffleFrom:
  assumes "validRandom rnd"
  shows "i < length xs \<Longrightarrow> mset (shuffleFrom rnd i xs) = mset xs"
proof (induction i arbitrary: xs)
  case 0
  then show ?case by simp
next
  case (Suc i)
  let ?j = "nat \<lfloor>rnd (Suc i) * real (Suc i + 1)\<rfloor>"
  from random_index_le [OF assms, of "Suc i"] Suc.prems have j: "?j < length xs"
    by simp
  have "mset (swap xs (Suc i) ?j) = mset xs"
    using Suc.prems j by (simp add: swap_def mset_swap)
  moreover have "mset (shuffleFrom rnd i (swap xs (Suc i) ?j)) = mset (swap xs (Suc i) ?j)"
    using Suc.prems by (intro Suc.IH) (simp add: swap_def)
  ultimately show ?case
    by (simp add: Let_def)
qed

lemma mset_shuffleArray:
  "validRandom rnd \<Longrightarrow> mset (shuffleArray rnd xs) = mset xs"
  by (cases "xs = []") (simp_all add: shuffleArray_def mset_shuffleFrom)

lemma interval_apart:
  fixes w x :: real
  assumes "a < b"
    and "30 + real a * w \<le> x" and "x \<le> 30 + real a * w + (w - 10)"
    and "30 + real b * w \<le> x"
  shows False
proof -
  from assms(2,3) have w: "0 \<le> w"
    by linarith
  from \<open>a < b\<close> have "real a + 1 \<le> real b"
    by linarith
  from this w have "(real a + 1) * w \<le> real b * w"
    by (rule mult_right_mono)
  then have "real a * w + w \<le> real b * w"
    by (simp add: algebra_simps)
  with assms(3,4) show False
    by linarith
qed

lemma intervals_disjoint:
  fixes w x :: real
  assumes "a \<noteq> b"
    and "30 + real a * w \<le> x" and "x \<le> 30 + real a * w + (w - 10)"
    and "30 + real b * w \<le> x" and "x \<le> 30 + real b * w + (w - 10)"
  shows False
proof (cases "a < b")
  case True
  from interval_apart [OF True assms(2,3,4)] show False .
next
  case False
  with assms(1) have "b < a" by simp
  from interval_apart [OF this assms(4,5,2)] show False .
qed

lemma makeCard_disjoint:
  assumes "i \<noteq> j"
    and "hit (makeCard config cardData w h i) x y"
    and "hit (makeCard config cardData w h j) x y"
  shows False
proof -
  have "i mod cols config \<noteq> j mod cols config \<or> i div cols config \<noteq> j div cols config"
    using assms(1) by (metis div_mult_mod_eq)
  then show False
  proof
    assume "i mod cols config \<noteq> j mod cols config"
    from intervals_disjoint [OF this, of w x] assms(2,3) show False
      by (simp add: hit_def makeCard_def Let_def)
  next
    assume "i div cols config \<noteq> j div cols config"
    from intervals_disjoint [OF this, of h y] assms(2,3) show False
      by (simp add: hit_def makeCard_def Let_def)
  qed
qed

lemma disjointCards_makeCard:
  "disjointCards (map (makeCard config cardData w h) [0..<n])"
  unfolding disjointCards_def using makeCard_disjoint by auto

lemma symbol_makeCard:
  "i < length cardData \<Longrightarrow> symbol (makeCard config cardData w h i) = Some (cardData ! i)"
  by (simp add: makeCard_def Let_def)

lemma symbols_of_board:
  assumes "n = length cardData"
  shows "map symbol (map (makeCard config cardData w h) [0..<n]) = map Some cardData"
proof (rule nth_equalityI)
  show "length (map symbol (map (makeCard config cardData w h) [0..<n])) = length (map Some cardData)"
    using assms by simp
next
  fix i
  assume "i < length (map symbol (map (makeCard config cardData w h) [0..<n]))"
  then have "i < length cardData"
    using assms by simp
  then show "map symbol (map (makeCard config cardData w h) [0..<n]) ! i = map Some cardData ! i"
    using assms by (simp add: symbol_makeCard)
qed

lemma count_on_board:
  assumes "n = length cardData"
  shows "length (filter (\<lambda>c. symbol c = Some sm) (map (makeCard config cardData w h) [0..<n]))
           = count (mset cardData) sm"
proof -
  have "length (filter (\<lambda>c. symbol c = Some sm) (map (makeCard config cardData w h) [0..<n]))
          = length (filter (\<lambda>v. v = Some sm) (map symbol (map (makeCard config cardData w h) [0..<n])))"
    by (simp add: filter_map comp_def)
  also have "\<dots> = length (filter (\<lambda>v. v = Some sm) (map Some cardData))"
    by (simp only: symbols_of_board [OF assms])
  also have "\<dots> = length (filter (\<lambda>v. v = sm) cardData)"
    by (simp add: filter_map comp_def)
  also have "\<dots> = length (filter ((=) sm) cardData)"
    by (rule arg_cong [where f = length]) (rule filter_cong, auto)
  also have "\<dots> = count (mset cardData) sm"
    by (simp add: count_mset count_list_eq_length_filter)
  finally show ?thesis .
qed


lemma createCards_known:
  assumes "map_of (difficulties s) (difficulty s) = Some config"
  shows "fst (createCards s rnd) = None"
    and "cards (snd (createCards s rnd)) =
           map (makeCard config
                  (shuffleArray rnd (take (rows config * cols config div 2) (cardSymbols s)
                                     @ take (rows config * cols config div 2) (cardSymbols s)))
                  ((canvasWidth s - 60) / real (cols config))
                  ((canvasHeight s - 60) / real (rows config)))
             [0..<rows config * cols config]"
  using assms by (simp_all add: createCards_def Let_def)

lemma makeCard_size:
  assumes "0 < cols config" and "0 < rows config"
    and "60 + 10 * real (cols config) \<le> cw" and "60 + 10 * real (rows config) \<le> ch"
  shows "0 \<le> width (makeCard config cardData ((cw - 60) / real (cols config))
                        ((ch - 60) / real (rows config)) i)
       \<and> 0 \<le> height (makeCard config cardData ((cw - 60) / real (cols config))
                        ((ch - 60) / real (rows config)) i)"
  using assms by (simp add: makeCard_def Let_def le_divide_eq mult.commute)

lemma in_board:
  "c \<in> set (map (makeCard config cardData w h) [0..<n])
     \<longleftrightarrow> (\<exists>i<n. c = makeCard config cardData w h i)"
  by auto

lemma board_apart:
  assumes "i < n" and "j < n" and "i \<noteq> j"
  shows "\<not> (hit (map (makeCard config cardData w h) [0..<n] ! i) x y
          \<and> hit (map (makeCard config cardData w h) [0..<n] ! j) x y)"
  using assms makeCard_disjoint [of i j config cardData w h x y] by auto

lemma board_symbols_known:
  assumes "n = length cardData" and "c \<in> set (map (makeCard config cardData w h) [0..<n])"
  shows "\<exists>sm \<in> set cardData. symbol c = Some sm"
proof -
  from assms(2) obtain i where i: "i < n" "c = makeCard config cardData w h i"
    unfolding in_board by blast
  with assms(1) have "symbol c = Some (cardData ! i)" "cardData ! i \<in> set cardData"
    by (simp_all add: symbol_makeCard)
  then show ?thesis
    by blast
qed

lemma board_sizes:
  assumes "60 + 10 * real (cols config) \<le> cw" and "60 + 10 * real (rows config) \<le> ch"
    and "c \<in> set (map (makeCard config cardData ((cw - 60) / real (cols config))
                          ((ch - 60) / real (rows config))) [0..<rows config * cols config])"
  shows "0 \<le> width c \<and> 0 \<le> height c"
proof -
  from assms(3) obtain i where i: "i < rows config * cols config"
    "c = makeCard config cardData ((cw - 60) / real (cols config))
           ((ch - 60) / real (rows config)) i"
    unfolding in_board by blast
  from i(1) have "0 < cols config"
    by (cases "cols config = 0") simp_all
  moreover from i(1) have "0 < rows config"
    by (cases "rows config = 0") simp_all
  ultimately show ?thesis
    unfolding i(2) using assms(1,2) by (intro makeCard_size)
qed

text \<open>
  Claim C6. For every difficulty profile with an even number of cells and a pool of
  distinct symbols that has at least \<open>rows * cols / 2\<close> of them, \<open>createCards\<close> throws
  nothing and builds exactly \<open>rows * cols\<close> cards; each of the first \<open>rows * cols / 2\<close>
  symbols of the pool is on exactly two cards and no card carries anything else; no
  point lies inside two different cards. When the canvas is at least \<open>60 + 10 * cols\<close>
  wide and \<open>60 + 10 * rows\<close> high no card has a negative width or height, so the
  region of the hit test is the whole rectangle of the card.
\<close>

theorem createCards_board:
  assumes "map_of (difficulties s) (difficulty s) = Some config"
    and "even (rows config * cols config)"
    and "rows config * cols config div 2 \<le> length (cardSymbols s)"
    and "distinct (cardSymbols s)"
    and "validRandom rnd"
  shows "fst (createCards s rnd) = None
     \<and> length (cards (snd (createCards s rnd))) = rows config * cols config
     \<and> (\<forall>sm \<in> set (take (rows config * cols config div 2) (cardSymbols s)).
          length (filter (\<lambda>c. symbol c = Some sm) (cards (snd (createCards s rnd)))) = 2)
     \<and> (\<forall>c \<in> set (cards (snd (createCards s rnd))).
          \<exists>sm \<in> set (take (rows config * cols config div 2) (cardSymbols s)). symbol c = Some sm)
     \<and> (\<forall>i j x y. i < length (cards (snd (createCards s rnd)))
            \<and> j < length (cards (snd (createCards s rnd))) \<and> i \<noteq> j \<longrightarrow>
          \<not> (hit (cards (snd (createCards s rnd)) ! i) x y
             \<and> hit (cards (snd (createCards s rnd)) ! j) x y))
     \<and> (60 + 10 * real (cols config) \<le> canvasWidth s
          \<and> 60 + 10 * real (rows config) \<le> canvasHeight s \<longrightarrow>
        (\<forall>c \<in> set (cards (snd (createCards s rnd))). 0 \<le> width c \<and> 0 \<le> height c))"
proof -
  define n where "n = rows config * cols config"
  define sel where "sel = take (n div 2) (cardSymbols s)"
  define cardData where "cardData = shuffleArray rnd (sel @ sel)"
  define w where "w = (canvasWidth s - 60) / real (cols config)"
  define h where "h = (canvasHeight s - 60) / real (rows config)"
  define board where "board = map (makeCard config cardData w h) [0..<n]"
  have board: "cards (snd (createCards s rnd)) = board"
    unfolding board_def cardData_def sel_def n_def w_def h_def
    by (rule createCards_known(2) [OF assms(1)])
  have p1: "fst (createCards s rnd) = None"
    by (rule createCards_known(1) [OF assms(1)])
  have len: "length board = n"
    by (simp add: board_def)
  have len_sel: "length sel = n div 2"
    using assms(3) by (simp add: sel_def n_def)
  have half: "n div 2 + n div 2 = n"
    using even_two_times_div_two [OF assms(2)] by (simp add: n_def)
  have len_data: "n = length cardData"
    using len_sel half by (simp add: cardData_def)
  have mset_data: "mset cardData = mset sel + mset sel"
    using assms(5) by (simp add: cardData_def mset_shuffleArray)
  then have "set_mset (mset cardData) = set_mset (mset sel + mset sel)"
    by simp
  then have set_data: "set cardData = set sel"
    by simp
  have dist: "distinct sel"
    using assms(4) by (simp add: sel_def)
  have p3: "\<forall>sm \<in> set sel. length (filter (\<lambda>c. symbol c = Some sm) board) = 2"
  proof
    fix sm
    assume "sm \<in> set sel"
    with dist have "count (mset sel) sm = 1"
      by (simp add: distinct_count_atmost_1)
    with count_on_board [OF len_data, of sm config w h] mset_data
    show "length (filter (\<lambda>c. symbol c = Some sm) board) = 2"
      by (simp add: board_def)
  qed
  have p4: "\<forall>c \<in> set board. \<exists>sm \<in> set sel. symbol c = Some sm"
    using board_symbols_known [OF len_data, of _ config w h] set_data
    unfolding board_def by blast
  have p5: "\<forall>i j x y. i < length board \<and> j < length board \<and> i \<noteq> j \<longrightarrow>
          \<not> (hit (board ! i) x y \<and> hit (board ! j) x y)"
    unfolding len unfolding board_def using board_apart by blast
  have p6: "60 + 10 * real (cols config) \<le> canvasWidth s
          \<and> 60 + 10 * real (rows config) \<le> canvasHeight s \<longrightarrow>
        (\<forall>c \<in> set board. 0 \<le> width c \<and> 0 \<le> height c)"
    unfolding board_def w_def h_def n_def using board_sizes by blast
  have "fst (createCards s rnd) = None
     \<and> length board = n
     \<and> (\<forall>sm \<in> set sel. length (filter (\<lambda>c. symbol c = Some sm) board) = 2)
     \<and> (\<forall>c \<in> set board. \<exists>sm \<in> set sel. symbol c = Some sm)
     \<and> (\<forall>i j x y. i < length board \<and> j < length board \<and> i \<noteq> j \<longrightarrow>
          \<not> (hit (board ! i) x y \<and> hit (board ! j) x y))
     \<and> (60 + 10 * real (cols config) \<le> canvasWidth s
          \<and> 60 + 10 * real (rows config) \<le> canvasHeight s \<longrightarrow>
        (\<forall>c \<in> set board. 0 \<le> width c \<and> 0 \<le> height c))"
    by (intro conjI p1 len p3 p4 p5 p6)
  then show ?thesis
    unfolding board [symmetric] sel_def n_def .
qed

theorem createCards_board_witness:
  "map_of (difficulties demoNew) (difficulty demoNew) = Some \<lparr>rows = 2, cols = 3, timeBonus = 50\<rparr>
     \<and> validRandom zeroRandom
     \<and> fst (createCards demoNew zeroRandom) = None
     \<and> length (cards (snd (createCards demoNew zeroRandom))) = 6
     \<and> length (filter (\<lambda>c. symbol c = Some 127919) (cards (snd (createCards demoNew zeroRandom)))) = 2
     \<and> \<not> (hit (cards (snd (createCards demoNew zeroRandom)) ! 0) 225 100
          \<and> hit (cards (snd (createCards demoNew zeroRandom)) ! 1) 225 100)
     \<and> 0 \<le> width (cards (snd (createCards demoNew zeroRandom)) ! 0)"
proof -
  let ?config = "\<lparr>rows = 2, cols = 3, timeBonus = 50\<rparr>"
  have h1: "map_of (difficulties demoNew) (difficulty demoNew) = Some ?config"
    by (simp add: demoNew_def newObject_def defaultDifficulties_def)
  have h2: "even (rows ?config * cols ?config)"
    by simp
  have h3: "rows ?config * cols ?config div 2 \<le> length (cardSymbols demoNew)"
    by (simp add: demoNew_def newObject_def defaultCardSymbols_def)
  have h4: "distinct (cardSymbols demoNew)"
    by (simp add: demoNew_def newObject_def defaultCardSymbols_def)
  have h5: "validRandom zeroRandom"
    by (simp add: validRandom_def)
  note r = createCards_board [OF h1 h2 h3 h4 h5]
  have len: "length (cards (snd (createCards demoNew zeroRandom))) = 6"
    using r by simp
  have m: "127919 \<in> set (take (rows ?config * cols ?config div 2) (cardSymbols demoNew))"
    by (simp add: demoNew_def newObject_def defaultCardSymbols_def)
  have sz: "60 + 10 * real (cols ?config) \<le> canvasWidth demoNew
          \<and> 60 + 10 * real (rows ?config) \<le> canvasHeight demoNew"
    by (simp add: demoNew_def newObject_def)
  have c0: "cards (snd (createCards demoNew zeroRandom)) ! 0
              \<in> set (cards (snd (createCards demoNew zeroRandom)))"
    using len by simp
  from r have "fst (createCards demoNew zeroRandom) = None"
    by blast
  moreover from r m
  have "length (filter (\<lambda>c. symbol c = Some 127919) (cards (snd (createCards demoNew zeroRandom)))) = 2"
    by blast
  moreover from r
  have "0 < length (cards (snd (createCards demoNew zeroRandom)))
          \<and> 1 < length (cards (snd (createCards demoNew zeroRandom))) \<and> (0::nat) \<noteq> 1 \<longrightarrow>
        \<not> (hit (cards (snd (createCards demoNew zeroRandom)) ! 0) 225 100
          \<and> hit (cards (snd (createCards demoNew zeroRandom)) ! 1) 225 100)"
    by blast
  with len
  have "\<not> (hit (cards (snd (createCards demoNew zeroRandom)) ! 0) 225 100
          \<and> hit (cards (snd (createCards demoNew zeroRandom)) ! 1) 225 100)"
    by simp
  moreover from r sz c0
  have "0 \<le> width (cards (snd (createCards demoNew zeroRandom)) ! 0)"
    by blast
  ultimately show ?thesis
    using h1 h5 len by blast
qed

subsection \<open>Invariants of the reachable states\<close>

text \<open>Flipping and resolving change the flags of a card, not its rectangle.\<close>

lemma disjointCards_update:
  assumes "disjointCards cs" and "\<And>x y. hit c' x y = hit (cs ! k) x y"
  shows "disjointCards (cs[k := c'])"
  unfolding disjointCards_def
proof (intro allI impI)
  fix i j x y
  assume a: "i < length (cs[k := c']) \<and> j < length (cs[k := c']) \<and> i \<noteq> j"
  then have b: "i < length cs \<and> j < length cs \<and> i \<noteq> j"
    by simp
  have "hit (cs[k := c'] ! i) x y = hit (cs ! i) x y" for i
    using assms(2) by (cases "k < length cs") (auto simp: nth_list_update list_update_beyond)
  with assms(1) b show "\<not> (hit (cs[k := c'] ! i) x y \<and> hit (cs[k := c'] ! j) x y)"
    unfolding disjointCards_def by blast
qed

lemma hit_flags [simp]:
  "hit (c\<lparr>isFlipped := b\<rparr>) = hit c"
  "hit (c\<lparr>isMatched := b\<rparr>) = hit c"
  "hit (c\<lparr>flipTime := t\<rparr>) = hit c"
  by (simp_all add: hit_def fun_eq_iff)

lemma disjoint_flipCard:
  "disjointCards (cards s) \<Longrightarrow> disjointCards (cards (flipCard s c now))"
  by (simp add: flipCard_def Let_def disjointCards_update)

lemma disjoint_handleCanvasClick:
  "disjointCards (cards s) \<Longrightarrow> disjointCards (cards (handleCanvasClick s cx cy rect now))"
  by (simp add: handleCanvasClick_def handleCardClick_def Let_def disjoint_flipCard
      split: option.splits)

lemma disjoint_checkMatch:
  "disjointCards (cards s) \<Longrightarrow> disjointCards (cards (snd (checkMatch s)))"
  by (simp add: checkMatch_def Let_def setMatched_def unflip_def disjointCards_update
      split: list.splits sum.splits)

lemma disjoint_createCards:
  "disjointCards (cards s) \<Longrightarrow> disjointCards (cards (snd (createCards s rnd)))"
  by (simp add: createCards_def Let_def disjointCards_makeCard split: option.splits)

lemma cards_startTimer [simp]: "cards (startTimer s) = cards s"
  by (simp add: startTimer_def clearInterval_def Let_def split: option.splits)

lemma disjoint_startGame:
  "disjointCards (cards s) \<Longrightarrow> disjointCards (cards (snd (startGame s now rnd)))"
proof -
  assume d: "disjointCards (cards s)"
  let ?t = "s\<lparr>gameState := Playing, score := 0, moves := 0, matchedPairs := 0,
               flippedCards := [], startTime := Some now\<rparr>"
  from d have "disjointCards (cards ?t)" by simp
  from disjoint_createCards [OF this, of rnd] show ?thesis
    by (cases "createCards ?t rnd"; cases "fst (createCards ?t rnd)")
       (simp_all add: startGame_def initializeGame_def)
qed

lemma disjoint_step:
  "disjointCards (cards s) \<Longrightarrow> disjointCards (cards (step s ev))"
proof (cases ev)
  case (StartGameBtn now rnd)
  then show "disjointCards (cards s) \<Longrightarrow> ?thesis" by (simp add: disjoint_startGame)
next
  case (RestartBtn now rnd)
  then show "disjointCards (cards s) \<Longrightarrow> ?thesis" by (simp add: restartGame_def disjoint_startGame)
next
  case (PlayAgainBtn now rnd)
  assume "disjointCards (cards s)"
  then have "disjointCards (cards (s\<lparr>level := level s + 1\<rparr>))" by simp
  from disjoint_startGame [OF this] PlayAgainBtn show ?thesis by (simp add: playAgain_def)
next
  case (CanvasClick cx cy rect now)
  then show "disjointCards (cards s) \<Longrightarrow> ?thesis" by (simp add: disjoint_handleCanvasClick)
next
  case CheckMatchTimeout
  assume "disjointCards (cards s)"
  then have "disjointCards (cards (s\<lparr>pendingCheckMatch := pendingCheckMatch s - 1\<rparr>))" by simp
  from disjoint_checkMatch [OF this] \<open>disjointCards (cards s)\<close> CheckMatchTimeout show ?thesis by simp
next
  case GameCompleteTimeout
  then show "disjointCards (cards s) \<Longrightarrow> ?thesis"
    by (simp add: gameComplete_def saveBestScore_def Let_def)
qed (simp_all add: showStartScreen_def togglePause_def newGame_def selectDifficulty_def
      handleKeyPress_def resizeCanvas_def tick_def destroy_def clearInterval_def
      split: keyCode.splits option.splits)


text \<open>The flip buffer never holds more than two cards.\<close>

lemma buffer_flipCard:
  "length (flippedCards s) < 2 \<Longrightarrow> length (flippedCards (flipCard s c now)) \<le> 2"
  by (simp add: flipCard_def Let_def)

lemma buffer_handleCardClick:
  "length (flippedCards s) \<le> 2 \<Longrightarrow> length (flippedCards (handleCardClick s x y now)) \<le> 2"
  by (simp add: handleCardClick_def buffer_flipCard split: option.splits)

lemma buffer_handleCanvasClick:
  "length (flippedCards s) \<le> 2 \<Longrightarrow>
     length (flippedCards (handleCanvasClick s cx cy rect now)) \<le> 2"
  by (simp add: handleCanvasClick_def Let_def buffer_handleCardClick)

lemma buffer_checkMatch:
  "length (flippedCards s) \<le> 2 \<Longrightarrow> length (flippedCards (snd (checkMatch s))) \<le> 2"
  by (simp add: checkMatch_def Let_def split: list.splits sum.splits)

lemma buffer_startGame: "flippedCards (snd (startGame s now rnd)) = []"
  by (simp add: startGame_def initializeGame_def createCards_def startTimer_def
      clearInterval_def Let_def split: option.splits)

lemma buffer_step:
  "length (flippedCards s) \<le> 2 \<Longrightarrow> length (flippedCards (step s ev)) \<le> 2"
proof (cases ev)
  case (CanvasClick cx cy rect now)
  then show "length (flippedCards s) \<le> 2 \<Longrightarrow> ?thesis"
    by (simp add: buffer_handleCanvasClick)
next
  case CheckMatchTimeout
  assume "length (flippedCards s) \<le> 2"
  then have "length (flippedCards (s\<lparr>pendingCheckMatch := pendingCheckMatch s - 1\<rparr>)) \<le> 2"
    by simp
  from buffer_checkMatch [OF this] \<open>length (flippedCards s) \<le> 2\<close> CheckMatchTimeout
  show ?thesis by simp
qed (simp_all add: buffer_startGame restartGame_def playAgain_def showStartScreen_def
      togglePause_def newGame_def selectDifficulty_def handleKeyPress_def resizeCanvas_def
      tick_def gameComplete_def saveBestScore_def destroy_def clearInterval_def Let_def
      split: keyCode.splits option.splits)

text \<open>Only \<open>startTimer\<close> touches the interval timers, and it clears the one it replaces.\<close>

lemma timerInv_startTimer:
  assumes "timerInv s"
  shows "timerInv (startTimer s)"
    and "intervals (startTimer s) = [nextHandle s]"
    and "nextHandle s \<notin> set (intervals s)"
  using assms
  by (auto simp: timerInv_def handlesOk_def startTimer_def clearInterval_def Let_def
      split: option.splits)

lemma timer_createCards [simp]:
  "timerInterval (snd (createCards s rnd)) = timerInterval s"
  "intervals (snd (createCards s rnd)) = intervals s"
  "nextHandle (snd (createCards s rnd)) = nextHandle s"
  by (simp_all add: createCards_def Let_def split: option.splits)

lemma timer_checkMatch [simp]:
  "timerInterval (snd (checkMatch s)) = timerInterval s"
  "intervals (snd (checkMatch s)) = intervals s"
  "nextHandle (snd (checkMatch s)) = nextHandle s"
  by (simp_all add: checkMatch_def Let_def split: list.splits sum.splits)

lemma timer_handleCanvasClick [simp]:
  "timerInterval (handleCanvasClick s cx cy rect now) = timerInterval s"
  "intervals (handleCanvasClick s cx cy rect now) = intervals s"
  "nextHandle (handleCanvasClick s cx cy rect now) = nextHandle s"
  by (simp_all add: handleCanvasClick_def handleCardClick_def flipCard_def Let_def
      split: option.splits)

lemma timerInv_startGame:
  assumes "timerInv s"
  shows "timerInv (snd (startGame s now rnd))"
proof -
  let ?t = "s\<lparr>gameState := Playing, score := 0, moves := 0, matchedPairs := 0,
               flippedCards := [], startTime := Some now\<rparr>"
  have t: "timerInv (snd (createCards ?t rnd))"
    using assms by (simp add: timerInv_def)
  show ?thesis
  proof (cases "fst (createCards ?t rnd)")
    case None
    then have "snd (startGame s now rnd) = startTimer (snd (createCards ?t rnd))"
      by (cases "createCards ?t rnd") (simp add: startGame_def initializeGame_def)
    with timerInv_startTimer(1) [OF t] show ?thesis by simp
  next
    case (Some e)
    then have "snd (startGame s now rnd) = snd (createCards ?t rnd)"
      by (cases "createCards ?t rnd") (simp add: startGame_def initializeGame_def)
    with t show ?thesis by simp
  qed
qed

lemma timerInv_step: "timerInv s \<Longrightarrow> timerInv (step s ev)"
proof (cases ev)
  case (StartGameBtn now rnd)
  then show "timerInv s \<Longrightarrow> ?thesis" by (simp add: timerInv_startGame)
next
  case (RestartBtn now rnd)
  then show "timerInv s \<Longrightarrow> ?thesis" by (simp add: restartGame_def timerInv_startGame)
next
  case (PlayAgainBtn now rnd)
  assume "timerInv s"
  then have "timerInv (s\<lparr>level := level s + 1\<rparr>)" by (simp add: timerInv_def)
  from timerInv_startGame [OF this] PlayAgainBtn show ?thesis by (simp add: playAgain_def)
next
  case (IntervalTick now)
  then show "timerInv s \<Longrightarrow> ?thesis"
    by (cases "intervals s = []") (simp_all add: timerInv_def)
next
  case BeforeUnload
  then show "timerInv s \<Longrightarrow> ?thesis"
    by (auto simp: timerInv_def handlesOk_def destroy_def clearInterval_def
        split: option.splits)
qed (simp_all add: timerInv_def showStartScreen_def togglePause_def newGame_def
      selectDifficulty_def handleKeyPress_def resizeCanvas_def gameComplete_def Let_def
      split: keyCode.splits)

text \<open>The references of the flip buffer stay inside the board.\<close>

lemma findCard_in_range: "findCard cs x y = Some c \<Longrightarrow> c < length cs"
  by (auto simp: findCard_def find_Some_iff)

lemma refs_flipCard:
  "refsValid s \<Longrightarrow> c < length (cards s) \<Longrightarrow> refsValid (flipCard s c now)"
  by (simp add: refsValid_def flipCard_def Let_def)

lemma refs_handleCanvasClick:
  "refsValid s \<Longrightarrow> refsValid (handleCanvasClick s cx cy rect now)"
  by (auto simp: handleCanvasClick_def handleCardClick_def Let_def refs_flipCard
      findCard_in_range split: option.splits)

lemma refs_checkMatch: "refsValid s \<Longrightarrow> refsValid (snd (checkMatch s))"
  by (simp add: refsValid_def checkMatch_def Let_def setMatched_def unflip_def
      split: list.splits sum.splits)

lemma refs_startGame: "refsValid (snd (startGame s now rnd))"
  by (simp add: refsValid_def buffer_startGame)

lemma refs_step: "refsValid s \<Longrightarrow> refsValid (step s ev)"
proof (cases ev)
  case (CanvasClick cx cy rect now)
  then show "refsValid s \<Longrightarrow> ?thesis"
    by (simp add: refs_handleCanvasClick)
next
  case CheckMatchTimeout
  assume r: "refsValid s"
  then have "refsValid (s\<lparr>pendingCheckMatch := pendingCheckMatch s - 1\<rparr>)"
    by (simp add: refsValid_def)
  from refs_checkMatch [OF this] r CheckMatchTimeout show ?thesis
    by simp
qed (simp_all add: refs_startGame restartGame_def playAgain_def, 
     simp_all add: refsValid_def showStartScreen_def
      togglePause_def newGame_def selectDifficulty_def handleKeyPress_def resizeCanvas_def
      tick_def gameComplete_def saveBestScore_def destroy_def clearInterval_def Let_def
      split: keyCode.splits option.splits)

lemma reachable_refsValid: "reachable s \<Longrightarrow> refsValid s"
proof (induction rule: reachable.induct)
  case (reachable_new containerWidth containerHeight store)
  show ?case by (simp add: refsValid_def newObject_def)
next
  case (reachable_step s ev)
  then show ?case by (simp add: refs_step)
qed

lemma reachable_invariants:
  assumes "reachable s"
  shows "length (flippedCards s) \<le> 2 \<and> disjointCards (cards s) \<and> timerInv s"
  using assms
proof (induction rule: reachable.induct)
  case (reachable_new containerWidth containerHeight store)
  show ?case by (simp add: newObject_def disjointCards_def timerInv_def handlesOk_def)
next
  case (reachable_step s ev)
  then show ?case by (simp add: buffer_step disjoint_step timerInv_step)
qed

lemma reachable_steps:
  assumes "reachable s" and "\<forall>ev \<in> set evs. validEvent ev"
  shows "reachable (foldl step s evs)"
  using assms by (induction evs arbitrary: s) (simp_all add: reachable_step)

lemma findCard_none:
  assumes "disjointCards cs" and "i < length cs" and "hit (cs ! i) x y"
    and "isMatched (cs ! i) \<or> isFlipped (cs ! i)"
  shows "findCard cs x y = None"
proof -
  have "\<not> (hit (cs ! j) x y \<and> \<not> isFlipped (cs ! j) \<and> \<not> isMatched (cs ! j))"
    if "j < length cs" for j
  proof (cases "j = i")
    case True
    with assms(4) show ?thesis by blast
  next
    case False
    with assms(1,2,3) that show ?thesis
      unfolding disjointCards_def by blast
  qed
  then show ?thesis
    by (simp add: findCard_def find_None_iff)
qed

subsection \<open>The worked examples are reachable\<close>

lemma reachable_demoGame: "reachable demoGame"
proof -
  have "reachable (newObject 700 500 Map.empty)"
    by (rule reachable_new)
  then have "reachable (step (newObject 700 500 Map.empty) (DifficultyBtn ''easy''))"
    by (rule reachable_step) simp
  then have "reachable (step (step (newObject 700 500 Map.empty) (DifficultyBtn ''easy''))
                         (StartGameBtn 0 zeroRandom))"
    by (rule reachable_step) (simp add: validRandom_def)
  moreover have "step (newObject 700 500 Map.empty) (DifficultyBtn ''easy'') = demoNew"
    by (simp add: demoNew_def selectDifficulty_def)
  ultimately show ?thesis
    using demo_start by simp
qed

lemma reachable_demoOne: "reachable demoOne"
  unfolding demoOne_def using reachable_demoGame by (rule reachable_step) simp

lemma demoOne_fields:
  "cards demoOne = (cards demoGame)[0 := (cards demoGame ! 0)\<lparr>isFlipped := True, flipTime := 2000\<rparr>]"
  "flippedCards demoOne = [0]"
  by (simp_all add: demoOne_def demoGame_def demoCard_def demoRect_def handleCanvasClick_def
      handleCardClick_def findCard_def hit_def flipCard_def upt_rec Let_def)

subsection \<open>Card clicks\<close>

text \<open>
  Claim C2. In every reachable state the flip buffer holds at most two cards, and it
  still does after any further sequence of events, card clicks included. A click on a
  point inside a card that is matched or face up changes nothing, whether it is given
  in board coordinates to \<open>handleCardClick\<close> or in page coordinates to
  \<open>handleCanvasClick\<close>.
\<close>

theorem flip_buffer_bounded:
  assumes "reachable s"
  shows "length (flippedCards s) \<le> 2
     \<and> (\<forall>evs. (\<forall>ev \<in> set evs. validEvent ev) \<longrightarrow>
            length (flippedCards (foldl step s evs)) \<le> 2)
     \<and> (\<forall>i x y now. i < length (cards s) \<and> hit (cards s ! i) x y
            \<and> (isMatched (cards s ! i) \<or> isFlipped (cards s ! i)) \<longrightarrow>
          handleCardClick s x y now = s)
     \<and> (\<forall>i clientX clientY rect now. i < length (cards s)
            \<and> hit (cards s ! i)
                 ((clientX - rect_left rect) * (canvasWidth s / rect_width rect))
                 ((clientY - rect_top rect) * (canvasHeight s / rect_height rect))
            \<and> (isMatched (cards s ! i) \<or> isFlipped (cards s ! i)) \<longrightarrow>
          handleCanvasClick s clientX clientY rect now = s)"
proof -
  from reachable_invariants [OF assms]
  have len: "length (flippedCards s) \<le> 2" and dis: "disjointCards (cards s)"
    by blast+
  have seq: "length (flippedCards (foldl step s evs)) \<le> 2"
    if "\<forall>ev \<in> set evs. validEvent ev" for evs
    using reachable_invariants [OF reachable_steps [OF assms that]] by blast
  have click: "handleCardClick s x y now = s"
    if "i < length (cards s)" "hit (cards s ! i) x y"
      "isMatched (cards s ! i) \<or> isFlipped (cards s ! i)" for i x y now
    using findCard_none [OF dis that] by (simp add: handleCardClick_def)
  have canvas: "handleCanvasClick s clientX clientY rect now = s"
    if "i < length (cards s)"
      "hit (cards s ! i)
         ((clientX - rect_left rect) * (canvasWidth s / rect_width rect))
         ((clientY - rect_top rect) * (canvasHeight s / rect_height rect))"
      "isMatched (cards s ! i) \<or> isFlipped (cards s ! i)" for i clientX clientY rect now
    using click [OF that] by (simp add: handleCanvasClick_def Let_def)
  from len seq click canvas show ?thesis
    by blast
qed

theorem flip_buffer_bounded_witness:
  "reachable demoOne
     \<and> isFlipped (cards demoOne ! 0) \<and> hit (cards demoOne ! 0) 100 100
     \<and> length (flippedCards demoOne) \<le> 2
     \<and> length (flippedCards (foldl step demoOne
           [CanvasClick 300 100 demoRect 2100, CanvasClick 500 100 demoRect 2200])) \<le> 2
     \<and> handleCardClick demoOne 100 100 2300 = demoOne"
proof -
  note r = flip_buffer_bounded [OF reachable_demoOne]
  have f: "0 < length (cards demoOne)" "isFlipped (cards demoOne ! 0)"
    "hit (cards demoOne ! 0) 100 100"
    by (simp_all add: demoOne_fields demoGame_def demoCard_def hit_def)
  have v: "\<forall>ev \<in> set [CanvasClick 300 100 demoRect 2100, CanvasClick 500 100 demoRect 2200].
             validEvent ev"
    by simp
  from r v have "length (flippedCards (foldl step demoOne
           [CanvasClick 300 100 demoRect 2100, CanvasClick 500 100 demoRect 2200])) \<le> 2"
    by blast
  moreover from r f have "handleCardClick demoOne 100 100 2300 = demoOne"
    by blast
  moreover from r have "length (flippedCards demoOne) \<le> 2"
    by blast
  ultimately show ?thesis
    using reachable_demoOne f by blast
qed

subsection \<open>The interval timer\<close>

lemma intervals_startGame:
  assumes "timerInv s" and "fst (startGame s now rnd) = None"
  shows "intervals (snd (startGame s now rnd)) = [nextHandle s]
       \<and> nextHandle s \<notin> set (intervals s)"
proof -
  let ?t = "s\<lparr>gameState := Playing, score := 0, moves := 0, matchedPairs := 0,
               flippedCards := [], startTime := Some now\<rparr>"
  have t: "timerInv (snd (createCards ?t rnd))"
    using assms(1) by (simp add: timerInv_def)
  have "fst (createCards ?t rnd) = None"
    using assms(2)
    by (cases "createCards ?t rnd"; cases "fst (createCards ?t rnd)")
       (simp_all add: startGame_def initializeGame_def)
  then have "snd (startGame s now rnd) = startTimer (snd (createCards ?t rnd))"
    by (cases "createCards ?t rnd") (simp add: startGame_def initializeGame_def)
  with timerInv_startTimer(2,3) [OF t] show ?thesis
    by simp
qed

text \<open>
  Claim C8, as stated, fails: leaving the Playing phase does not cancel the tick. In the
  reachable game below the timer with handle 1 is still live after \<open>showStartScreen\<close>
  has put the game into the Menu phase, and after \<open>gameComplete\<close> has put it into the
  Completed phase.
\<close>

theorem timer_survives_menu_counterexample:
  "reachable demoGame \<and> gameState demoGame = Playing
     \<and> gameState (showStartScreen demoGame) = Menu
     \<and> intervals demoGame = [1]
     \<and> intervals (showStartScreen demoGame) = [1]
     \<and> gameState (gameComplete demoGame) = Completed
     \<and> intervals (gameComplete demoGame) = [1]"
  using reachable_demoGame
  by (simp add: showStartScreen_def gameComplete_def Let_def demoGame_def)

text \<open>
  Claim C8, amended. In every reachable state at most one interval timer is live.
  \<open>showStartScreen\<close>, \<open>newGame\<close> and \<open>gameComplete\<close> leave the live timers as they are;
  the callback changes nothing while the phase is not Playing or the game is paused;
  and a \<open>startGame\<close> that throws nothing ends with exactly one live timer, a fresh one,
  the timer of the game before having been cleared.
\<close>

theorem tick_timer_single:
  assumes "reachable s"
  shows "length (intervals s) \<le> 1
     \<and> intervals (showStartScreen s) = intervals s
     \<and> intervals (newGame s) = intervals s
     \<and> intervals (gameComplete s) = intervals s
     \<and> (gameState s \<noteq> Playing \<or> isPaused s \<longrightarrow> (\<forall>now. tick s now = s))
     \<and> (\<forall>now rnd. fst (startGame s now rnd) = None \<longrightarrow>
            intervals (snd (startGame s now rnd)) = [nextHandle s]
          \<and> nextHandle s \<notin> set (intervals s))"
proof -
  from reachable_invariants [OF assms] have t: "timerInv s"
    by blast
  then have "length (intervals s) \<le> 1"
    by (auto simp: timerInv_def handlesOk_def split: option.splits)
  moreover have "intervals (showStartScreen s) = intervals s"
    "intervals (newGame s) = intervals s" "intervals (gameComplete s) = intervals s"
    by (simp_all add: showStartScreen_def newGame_def gameComplete_def Let_def)
  moreover have "gameState s \<noteq> Playing \<or> isPaused s \<longrightarrow> (\<forall>now. tick s now = s)"
    by (auto simp: tick_def)
  moreover note intervals_startGame [OF t]
  ultimately show ?thesis
    by blast
qed

theorem tick_timer_single_witness:
  "reachable demoGame
     \<and> length (intervals demoGame) \<le> 1
     \<and> intervals (showStartScreen demoGame) = intervals demoGame
     \<and> fst (startGame demoGame 9000 zeroRandom) = None
     \<and> intervals (snd (startGame demoGame 9000 zeroRandom)) = [2]"
proof -
  note r = tick_timer_single [OF reachable_demoGame]
  have f: "fst (startGame demoGame 9000 zeroRandom) = None"
    by (simp add: startGame_def initializeGame_def createCards_def demoGame_def
        defaultDifficulties_def Let_def)
  have n: "nextHandle demoGame = 2"
    by (simp add: demoGame_def)
  from r f have "intervals (snd (startGame demoGame 9000 zeroRandom)) = [nextHandle demoGame]"
    by blast
  with r n f reachable_demoGame show ?thesis
    by simp
qed

subsection \<open>A pool with too few symbols\<close>

lemma startGame_known:
  assumes "map_of (difficulties s) (difficulty s) = Some config"
  shows "fst (startGame s now rnd) = None"
    and "gameState (snd (startGame s now rnd)) = Playing"
    and "cards (snd (startGame s now rnd)) =
           map (makeCard config
                  (shuffleArray rnd (take (rows config * cols config div 2) (cardSymbols s)
                                     @ take (rows config * cols config div 2) (cardSymbols s)))
                  ((canvasWidth s - 60) / real (cols config))
                  ((canvasHeight s - 60) / real (rows config)))
             [0..<rows config * cols config]"
  using assms
  by (simp_all add: startGame_def initializeGame_def createCards_def startTimer_def
      clearInterval_def Let_def split: option.splits)

lemma symbol_makeCard_undefined:
  "length cardData \<le> i \<Longrightarrow> symbol (makeCard config cardData w h i) = None"
  by (simp add: makeCard_def Let_def)

text \<open>
  Claim C5, as stated, fails: nothing checks the size of the pool and no error named
  InsufficientSymbols exists. From the Menu phase, with the easy profile (three pairs)
  and a pool of two symbols, \<open>startGame\<close> throws nothing and enters the Playing phase;
  the last two cards carry \<open>undefined\<close>.
\<close>

theorem startGame_short_pool_counterexample:
  "gameState demoShort = Menu
     \<and> map_of (difficulties demoShort) (difficulty demoShort)
         = Some \<lparr>rows = 2, cols = 3, timeBonus = 50\<rparr>
     \<and> card (set (cardSymbols demoShort)) = 2
     \<and> fst (startGame demoShort 0 zeroRandom) = None
     \<and> gameState (snd (startGame demoShort 0 zeroRandom)) = Playing
     \<and> map symbol (cards (snd (startGame demoShort 0 zeroRandom)))
         = [Some 127918, Some 127919, Some 127918, Some 127919, None, None]"
  by (simp add: demoShort_def demoNew_def newObject_def showStartScreen_def
      defaultDifficulties_def startGame_def initializeGame_def createCards_def
      shuffleArray_def swap_def makeCard_def startTimer_def upt_rec Let_def)

text \<open>
  Claim C5, amended. For every difficulty profile of the table and every pool with fewer
  than \<open>rows * cols / 2\<close> distinct symbols, \<open>startGame\<close> throws nothing, enters the
  Playing phase and builds \<open>rows * cols\<close> cards; the cards at the positions from twice
  the length of the pool on carry the symbol \<open>undefined\<close>.
\<close>

theorem startGame_short_pool:
  assumes "map_of (difficulties s) (difficulty s) = Some config"
    and "card (set (cardSymbols s)) < rows config * cols config div 2"
  shows "fst (startGame s now rnd) = None
     \<and> gameState (snd (startGame s now rnd)) = Playing
     \<and> length (cards (snd (startGame s now rnd))) = rows config * cols config
     \<and> (\<forall>i. 2 * length (cardSymbols s) \<le> i \<and> i < rows config * cols config \<longrightarrow>
          symbol (cards (snd (startGame s now rnd)) ! i) = None)"
proof -
  note k = startGame_known [OF assms(1), of now rnd]
  have len: "length (cards (snd (startGame s now rnd))) = rows config * cols config"
    by (simp add: k(3))
  have "symbol (cards (snd (startGame s now rnd)) ! i) = None"
    if "2 * length (cardSymbols s) \<le> i" "i < rows config * cols config" for i
    unfolding k(3) using that by (simp add: symbol_makeCard_undefined)
  then have undef: "\<forall>i. 2 * length (cardSymbols s) \<le> i \<and> i < rows config * cols config \<longrightarrow>
      symbol (cards (snd (startGame s now rnd)) ! i) = None"
    by blast
  show ?thesis
    by (intro conjI k(1) k(2) len undef)
qed

theorem startGame_short_pool_witness:
  "card (set (cardSymbols demoShort)) < 2 * 3 div 2
     \<and> fst (startGame demoShort 0 zeroRandom) = None
     \<and> gameState (snd (startGame demoShort 0 zeroRandom)) = Playing
     \<and> length (cards (snd (startGame demoShort 0 zeroRandom))) = 6
     \<and> symbol (cards (snd (startGame demoShort 0 zeroRandom)) ! 4) = None"
proof -
  let ?config = "\<lparr>rows = 2, cols = 3, timeBonus = 50\<rparr>"
  have h1: "map_of (difficulties demoShort) (difficulty demoShort) = Some ?config"
    by (simp add: demoShort_def demoNew_def newObject_def showStartScreen_def
        defaultDifficulties_def)
  have h2: "card (set (cardSymbols demoShort)) < rows ?config * cols ?config div 2"
    by (simp add: demoShort_def)
  have l: "length (cardSymbols demoShort) = 2"
    by (simp add: demoShort_def)
  note r = startGame_short_pool [OF h1 h2, of 0 zeroRandom]
  from r have "2 * length (cardSymbols demoShort) \<le> 4 \<and> 4 < rows ?config * cols ?config \<longrightarrow>
      symbol (cards (snd (startGame demoShort 0 zeroRandom)) ! 4) = None"
    by blast
  with l have "symbol (cards (snd (startGame demoShort 0 zeroRandom)) ! 4) = None"
    by simp
  with r h2 show ?thesis
    by simp
qed

end
